theory Spec2Isabelle
  imports Complex_Main "HOL-Library.Sublist"
begin

text \<open>
  A shallow embedding of the session hook \<^verbatim>\<open>useRoboShen\<close> of the voice client: the error
  classifier, the resource cleanup, the conversation history, the tool-call loop and the
  playback scheduler of \<^verbatim>\<open>handleMessage\<close>, \<^verbatim>\<open>startSession\<close>, and the callbacks of the live channel.
  The revision embedded is the one with structured errors (\<^verbatim>\<open>AppError\<close>) and the closed-channel
  guard; line numbers refer to it.  The definitions come first, then the properties.
\<close>

section \<open>Strings\<close>

text \<open>
  A string is a list of bytes (the UTF-8 encoding of the source text).  The two string
  operations the error classifier relies on are \<^verbatim>\<open>toLowerCase\<close> and \<^verbatim>\<open>includes\<close>.

  \<^verbatim>\<open>String.prototype.toLowerCase\<close> follows the Unicode case mappings (it maps the Kelvin sign
  U+212A to \<^verbatim>\<open>k\<close>, for one); it belongs to the language runtime, and the classifier takes it as
  a parameter.  On a string of ASCII characters it maps the letters A to Z to a to z and leaves
  every other character as it is: that is \<open>asciiLowerCase\<close>, which the examples use, on ASCII
  messages only.

  All needles the classifier searches for are ASCII, and an ASCII byte never occurs inside a
  multi-byte UTF-8 sequence, so the search on bytes finds what the search on code units finds.
\<close>

definition asciiLowerChar :: "char \<Rightarrow> char" where
  "asciiLowerChar c =
     (case map_of (zip ''ABCDEFGHIJKLMNOPQRSTUVWXYZ'' ''abcdefghijklmnopqrstuvwxyz'') c of
        Some l \<Rightarrow> l
      | None \<Rightarrow> c)"

definition asciiLowerCase :: "string \<Rightarrow> string" where
  "asciiLowerCase s = map asciiLowerChar s"

fun includes_str :: "string \<Rightarrow> string \<Rightarrow> bool" where
  "includes_str [] needle = (needle = [])"
| "includes_str (c # cs) needle = (prefix needle (c # cs) \<or> includes_str cs needle)"

text \<open>The decimal rendering of a non-negative number, as a template literal produces it.\<close>

definition digit_char :: "nat \<Rightarrow> char" where
  "digit_char d = ''0123456789'' ! d"

fun string_of_nat :: "nat \<Rightarrow> string" where
  "string_of_nat n =
     (if n < 10 then [digit_char n] else string_of_nat (n div 10) @ [digit_char (n mod 10)])"

declare string_of_nat.simps [simp del]

section \<open>Numbers\<close>

text \<open>
  A number of the hook is an IEEE 754 double.  The playback scheduler compares numbers, takes
  their maximum and adds them; comparison and maximum are exact, the sum is rounded to a double.
  The scheduler takes the addition of the runtime as a parameter.

  \<open>doubleAdd\<close> is that addition for a sum in the normal range of the doubles: the exact sum
  rounded to 53 significant bits, to the nearest, a tie to the even neighbour.  Sums that
  overflow and sums below the normal range are outside this definition.  The examples use it,
  on such sums only.
\<close>

definition roundHalfEven :: "real \<Rightarrow> int" where
  "roundHalfEven q =
     (let f = \<lfloor>q\<rfloor>; r = q - of_int f
      in if r < 1 / 2 then f else if 1 / 2 < r then f + 1 else if even f then f else f + 1)"

definition roundToDouble :: "real \<Rightarrow> real" where
  "roundToDouble x =
     (if x = 0 then 0
      else (let e = \<lfloor>log 2 \<bar>x\<bar>\<rfloor> - 52
            in of_int (roundHalfEven (x / 2 powi e)) * 2 powi e))"

definition doubleAdd :: "real \<Rightarrow> real \<Rightarrow> real" where
  "doubleAdd x y = roundToDouble (x + y)"

section \<open>The types of the session hook\<close>

text \<open>
  \<^verbatim>\<open>SessionState\<close>, \<^verbatim>\<open>Role\<close>, \<^verbatim>\<open>ContentType\<close>, \<^verbatim>\<open>Message\<close> and \<^verbatim>\<open>AppError\<close> are imported by the
  hook from its types module; their shape is the one the hook uses them with.
\<close>

datatype SessionState = IDLE | CONNECTING | CONNECTED | ERROR

datatype Role = USER | MODEL

datatype ContentType = TEXT | CODE | IMAGE

record Message =
  msg_id :: string
  msg_role :: Role
  msg_text :: string
  msg_type :: ContentType

record AppError =
  title :: string
  message :: string
  steps :: "string list"

text \<open>
  A caught value is of type \<^verbatim>\<open>unknown\<close>: either an instance of \<^verbatim>\<open>Error\<close>, with its name and
  its message, or any other value.
\<close>

datatype thrown = ErrorObject string string | OtherValue

section \<open>User-facing texts\<close>

text \<open>
  The texts shown to the user are Persian string literals.  Each is given here under a name, as
  the bytes of its UTF-8 encoding, with the line of the literal in the hook and its meaning.
\<close>

definition title_unknown :: string where
  \<comment> \<open>line 52, Persian: an unknown error occurred\<close>
  "title_unknown =
     [CHR 0xDB, CHR 0x8C, CHR 0xDA, CHR 0xA9, CHR 0x20, CHR 0xD8, CHR 0xAE, CHR 0xD8, CHR 0xB7,
     CHR 0xD8, CHR 0xA7, CHR 0xDB, CHR 0x8C, CHR 0x20, CHR 0xD9, CHR 0x86, CHR 0xD8, CHR 0xA7,
     CHR 0xD8, CHR 0xB4, CHR 0xD9, CHR 0x86, CHR 0xD8, CHR 0xA7, CHR 0xD8, CHR 0xAE, CHR 0xD8,
     CHR 0xAA, CHR 0xD9, CHR 0x87, CHR 0x20, CHR 0xD8, CHR 0xB1, CHR 0xD8, CHR 0xAE, CHR 0x20,
     CHR 0xD8, CHR 0xAF, CHR 0xD8, CHR 0xA7, CHR 0xD8, CHR 0xAF]"

definition message_unknown :: string where
  \<comment> \<open>line 53, Persian: unfortunately something went wrong, please try again\<close>
  "message_unknown =
     [CHR 0xD9, CHR 0x85, CHR 0xD8, CHR 0xAA, CHR 0xD8, CHR 0xA7, CHR 0xD8, CHR 0xB3, CHR 0xD9,
     CHR 0x81, CHR 0xD8, CHR 0xA7, CHR 0xD9, CHR 0x86, CHR 0xD9, CHR 0x87, CHR 0x20, CHR 0xD9,
     CHR 0x85, CHR 0xD8, CHR 0xB4, CHR 0xDA, CHR 0xA9, CHR 0xD9, CHR 0x84, CHR 0xDB, CHR 0x8C,
     CHR 0x20, CHR 0xD9, CHR 0xBE, CHR 0xDB, CHR 0x8C, CHR 0xD8, CHR 0xB4, CHR 0x20, CHR 0xD8,
     CHR 0xA2, CHR 0xD9, CHR 0x85, CHR 0xD8, CHR 0xAF, CHR 0xD9, CHR 0x87, CHR 0x2E, CHR 0x20,
     CHR 0xD9, CHR 0x84, CHR 0xD8, CHR 0xB7, CHR 0xD9, CHR 0x81, CHR 0xD8, CHR 0xA7, CHR 0xD9,
     CHR 0x8B, CHR 0x20, CHR 0xD8, CHR 0xAF, CHR 0xD9, CHR 0x88, CHR 0xD8, CHR 0xA8, CHR 0xD8,
     CHR 0xA7, CHR 0xD8, CHR 0xB1, CHR 0xD9, CHR 0x87, CHR 0x20, CHR 0xD8, CHR 0xAA, CHR 0xD9,
     CHR 0x84, CHR 0xD8, CHR 0xA7, CHR 0xD8, CHR 0xB4, CHR 0x20, CHR 0xDA, CHR 0xA9, CHR 0xD9,
     CHR 0x86, CHR 0xDB, CHR 0x8C, CHR 0xD8, CHR 0xAF, CHR 0x2E]"

definition title_permission :: string where
  \<comment> \<open>line 59, Persian: microphone access is required\<close>
  "title_permission =
     [CHR 0xD8, CHR 0xAF, CHR 0xD8, CHR 0xB3, CHR 0xD8, CHR 0xAA, CHR 0xD8, CHR 0xB1, CHR 0xD8,
     CHR 0xB3, CHR 0xDB, CHR 0x8C, CHR 0x20, CHR 0xD8, CHR 0xA8, CHR 0xD9, CHR 0x87, CHR 0x20,
     CHR 0xD9, CHR 0x85, CHR 0xDB, CHR 0x8C, CHR 0xDA, CHR 0xA9, CHR 0xD8, CHR 0xB1, CHR 0xD9,
     CHR 0x88, CHR 0xD9, CHR 0x81, CHR 0xD9, CHR 0x88, CHR 0xD9, CHR 0x86, CHR 0x20, CHR 0xD9,
     CHR 0x84, CHR 0xD8, CHR 0xA7, CHR 0xD8, CHR 0xB2, CHR 0xD9, CHR 0x85, CHR 0x20, CHR 0xD8,
     CHR 0xA7, CHR 0xD8, CHR 0xB3, CHR 0xD8, CHR 0xAA]"

definition message_permission :: string where
  \<comment> \<open>line 60, Persian: to start talking RoboShen needs your permission to use the microphone\<close>
  "message_permission =
     [CHR 0xD8, CHR 0xA8, CHR 0xD8, CHR 0xB1, CHR 0xD8, CHR 0xA7, CHR 0xDB, CHR 0x8C, CHR 0x20,
     CHR 0xD8, CHR 0xB4, CHR 0xD8, CHR 0xB1, CHR 0xD9, CHR 0x88, CHR 0xD8, CHR 0xB9, CHR 0x20,
     CHR 0xDA, CHR 0xAF, CHR 0xD9, CHR 0x81, CHR 0xD8, CHR 0xAA, CHR 0xDA, CHR 0xAF, CHR 0xD9,
     CHR 0x88, CHR 0xD8, CHR 0x8C, CHR 0x20] @ ''RoboShen'' @ [CHR 0x20, CHR 0xD9, CHR 0x86,
     CHR 0xDB, CHR 0x8C, CHR 0xD8, CHR 0xA7, CHR 0xD8, CHR 0xB2, CHR 0x20, CHR 0xD8, CHR 0xA8,
     CHR 0xD9, CHR 0x87, CHR 0x20, CHR 0xD8, CHR 0xA7, CHR 0xD8, CHR 0xAC, CHR 0xD8, CHR 0xA7,
     CHR 0xD8, CHR 0xB2, CHR 0xD9, CHR 0x87, CHR 0xE2, CHR 0x80, CHR 0x8C, CHR 0xDB, CHR 0x8C,
     CHR 0x20, CHR 0xD8, CHR 0xB4, CHR 0xD9, CHR 0x85, CHR 0xD8, CHR 0xA7, CHR 0x20, CHR 0xD8,
     CHR 0xA8, CHR 0xD8, CHR 0xB1, CHR 0xD8, CHR 0xA7, CHR 0xDB, CHR 0x8C, CHR 0x20, CHR 0xD8,
     CHR 0xA7, CHR 0xD8, CHR 0xB3, CHR 0xD8, CHR 0xAA, CHR 0xD9, CHR 0x81, CHR 0xD8, CHR 0xA7,
     CHR 0xD8, CHR 0xAF, CHR 0xD9, CHR 0x87, CHR 0x20, CHR 0xD8, CHR 0xA7, CHR 0xD8, CHR 0xB2,
     CHR 0x20, CHR 0xD9, CHR 0x85, CHR 0xDB, CHR 0x8C, CHR 0xDA, CHR 0xA9, CHR 0xD8, CHR 0xB1,
     CHR 0xD9, CHR 0x88, CHR 0xD9, CHR 0x81, CHR 0xD9, CHR 0x88, CHR 0xD9, CHR 0x86, CHR 0x20,
     CHR 0xD8, CHR 0xAF, CHR 0xD8, CHR 0xA7, CHR 0xD8, CHR 0xB1, CHR 0xD8, CHR 0xAF, CHR 0x2E]"

definition step_permission_1 :: string where
  \<comment> \<open>line 62, Persian: click Allow in the window that opened\<close>
  "step_permission_1 =
     [CHR 0xD8, CHR 0xAF, CHR 0xD8, CHR 0xB1, CHR 0x20, CHR 0xD9, CHR 0xBE, CHR 0xD9, CHR 0x86,
     CHR 0xD8, CHR 0xAC, CHR 0xD8, CHR 0xB1, CHR 0xD9, CHR 0x87, CHR 0xE2, CHR 0x80, CHR 0x8C,
     CHR 0xDB, CHR 0x8C, CHR 0x20, CHR 0xD8, CHR 0xA8, CHR 0xD8, CHR 0xA7, CHR 0xD8, CHR 0xB2,
     CHR 0x20, CHR 0xD8, CHR 0xB4, CHR 0xD8, CHR 0xAF, CHR 0xD9, CHR 0x87, CHR 0x20, CHR 0xD8,
     CHR 0xB1, CHR 0xD9, CHR 0x88, CHR 0xDB, CHR 0x8C, CHR 0x20, CHR 0x22] @ ''Allow'' @
     [CHR 0x22, CHR 0x20, CHR 0xDA, CHR 0xA9, CHR 0xD9, CHR 0x84, CHR 0xDB, CHR 0x8C, CHR 0xDA,
     CHR 0xA9, CHR 0x20, CHR 0xDA, CHR 0xA9, CHR 0xD9, CHR 0x86, CHR 0xDB, CHR 0x8C, CHR 0xD8,
     CHR 0xAF, CHR 0x2E]"

definition step_permission_2 :: string where
  \<comment> \<open>line 63, Persian: if you closed the window, refresh the page\<close>
  "step_permission_2 =
     [CHR 0xD8, CHR 0xA7, CHR 0xDA, CHR 0xAF, CHR 0xD8, CHR 0xB1, CHR 0x20, CHR 0xD9, CHR 0xBE,
     CHR 0xD9, CHR 0x86, CHR 0xD8, CHR 0xAC, CHR 0xD8, CHR 0xB1, CHR 0xD9, CHR 0x87, CHR 0x20,
     CHR 0xD8, CHR 0xB1, CHR 0xD8, CHR 0xA7, CHR 0x20, CHR 0xD8, CHR 0xA8, CHR 0xD8, CHR 0xB3,
     CHR 0xD8, CHR 0xAA, CHR 0xD9, CHR 0x87, CHR 0xE2, CHR 0x80, CHR 0x8C, CHR 0xD8, CHR 0xA7,
     CHR 0xDB, CHR 0x8C, CHR 0xD8, CHR 0xAF, CHR 0xD8, CHR 0x8C, CHR 0x20, CHR 0xD8, CHR 0xB5,
     CHR 0xD9, CHR 0x81, CHR 0xD8, CHR 0xAD, CHR 0xD9, CHR 0x87, CHR 0x20, CHR 0xD8, CHR 0xB1,
     CHR 0xD8, CHR 0xA7, CHR 0x20, CHR 0xD8, CHR 0xB1, CHR 0xD9, CHR 0x81, CHR 0xD8, CHR 0xB1,
     CHR 0xD8, CHR 0xB4, CHR 0x20, CHR 0xDA, CHR 0xA9, CHR 0xD9, CHR 0x86, CHR 0xDB, CHR 0x8C,
     CHR 0xD8, CHR 0xAF, CHR 0x2E]"

definition step_permission_3 :: string where
  \<comment> \<open>line 64, Persian: enable microphone access for this site in the browser settings\<close>
  "step_permission_3 =
     [CHR 0xD8, CHR 0xAF, CHR 0xD8, CHR 0xB1, CHR 0x20, CHR 0xD8, CHR 0xAA, CHR 0xD9, CHR 0x86,
     CHR 0xD8, CHR 0xB8, CHR 0xDB, CHR 0x8C, CHR 0xD9, CHR 0x85, CHR 0xD8, CHR 0xA7, CHR 0xD8,
     CHR 0xAA, CHR 0x20, CHR 0xD9, CHR 0x85, CHR 0xD8, CHR 0xB1, CHR 0xD9, CHR 0x88, CHR 0xD8,
     CHR 0xB1, CHR 0xDA, CHR 0xAF, CHR 0xD8, CHR 0xB1, CHR 0x20, CHR 0xD8, CHR 0xAE, CHR 0xD9,
     CHR 0x88, CHR 0xD8, CHR 0xAF, CHR 0xD8, CHR 0x8C, CHR 0x20, CHR 0xD8, CHR 0xAF, CHR 0xD8,
     CHR 0xB3, CHR 0xD8, CHR 0xAA, CHR 0xD8, CHR 0xB1, CHR 0xD8, CHR 0xB3, CHR 0xDB, CHR 0x8C,
     CHR 0x20, CHR 0xD8, CHR 0xA8, CHR 0xD9, CHR 0x87, CHR 0x20, CHR 0xD9, CHR 0x85, CHR 0xDB,
     CHR 0x8C, CHR 0xDA, CHR 0xA9, CHR 0xD8, CHR 0xB1, CHR 0xD9, CHR 0x88, CHR 0xD9, CHR 0x81,
     CHR 0xD9, CHR 0x88, CHR 0xD9, CHR 0x86, CHR 0x20, CHR 0xD8, CHR 0xB1, CHR 0xD8, CHR 0xA7,
     CHR 0x20, CHR 0xD8, CHR 0xA8, CHR 0xD8, CHR 0xB1, CHR 0xD8, CHR 0xA7, CHR 0xDB, CHR 0x8C,
     CHR 0x20, CHR 0xD8, CHR 0xA7, CHR 0xDB, CHR 0x8C, CHR 0xD9, CHR 0x86, CHR 0x20, CHR 0xD8,
     CHR 0xB3, CHR 0xD8, CHR 0xA7, CHR 0xDB, CHR 0x8C, CHR 0xD8, CHR 0xAA, CHR 0x20, CHR 0xD9,
     CHR 0x81, CHR 0xD8, CHR 0xB9, CHR 0xD8, CHR 0xA7, CHR 0xD9, CHR 0x84, CHR 0x20, CHR 0xDA,
     CHR 0xA9, CHR 0xD9, CHR 0x86, CHR 0xDB, CHR 0x8C, CHR 0xD8, CHR 0xAF, CHR 0x2E]"

definition title_connection :: string where
  \<comment> \<open>line 67, Persian: error connecting to the server\<close>
  "title_connection =
     [CHR 0xD8, CHR 0xAE, CHR 0xD8, CHR 0xB7, CHR 0xD8, CHR 0xA7, CHR 0x20, CHR 0xD8, CHR 0xAF,
     CHR 0xD8, CHR 0xB1, CHR 0x20, CHR 0xD8, CHR 0xA7, CHR 0xD8, CHR 0xB1, CHR 0xD8, CHR 0xAA,
     CHR 0xD8, CHR 0xA8, CHR 0xD8, CHR 0xA7, CHR 0xD8, CHR 0xB7, CHR 0x20, CHR 0xD8, CHR 0xA8,
     CHR 0xD8, CHR 0xA7, CHR 0x20, CHR 0xD8, CHR 0xB3, CHR 0xD8, CHR 0xB1, CHR 0xD9, CHR 0x88,
     CHR 0xD8, CHR 0xB1]"

definition message_connection :: string where
  \<comment> \<open>line 68, Persian: could not connect to the AI service, possible reasons follow\<close>
  "message_connection =
     [CHR 0xD8, CHR 0xA7, CHR 0xD8, CHR 0xB1, CHR 0xD8, CHR 0xAA, CHR 0xD8, CHR 0xA8, CHR 0xD8,
     CHR 0xA7, CHR 0xD8, CHR 0xB7, CHR 0x20, CHR 0xD8, CHR 0xA8, CHR 0xD8, CHR 0xA7, CHR 0x20,
     CHR 0xD8, CHR 0xB3, CHR 0xD8, CHR 0xB1, CHR 0xD9, CHR 0x88, CHR 0xDB, CHR 0x8C, CHR 0xD8,
     CHR 0xB3, CHR 0x20, CHR 0xD9, CHR 0x87, CHR 0xD9, CHR 0x88, CHR 0xD8, CHR 0xB4, CHR 0x20,
     CHR 0xD9, CHR 0x85, CHR 0xD8, CHR 0xB5, CHR 0xD9, CHR 0x86, CHR 0xD9, CHR 0x88, CHR 0xD8,
     CHR 0xB9, CHR 0xDB, CHR 0x8C, CHR 0x20, CHR 0xD8, CHR 0xA8, CHR 0xD8, CHR 0xB1, CHR 0xD9,
     CHR 0x82, CHR 0xD8, CHR 0xB1, CHR 0xD8, CHR 0xA7, CHR 0xD8, CHR 0xB1, CHR 0x20, CHR 0xD9,
     CHR 0x86, CHR 0xD8, CHR 0xB4, CHR 0xD8, CHR 0xAF, CHR 0x2E, CHR 0x20, CHR 0xD8, CHR 0xA7,
     CHR 0xDB, CHR 0x8C, CHR 0xD9, CHR 0x86, CHR 0x20, CHR 0xD9, CHR 0x85, CHR 0xD8, CHR 0xB4,
     CHR 0xDA, CHR 0xA9, CHR 0xD9, CHR 0x84, CHR 0x20, CHR 0xD9, CHR 0x85, CHR 0xDB, CHR 0x8C,
     CHR 0xE2, CHR 0x80, CHR 0x8C, CHR 0xD8, CHR 0xAA, CHR 0xD9, CHR 0x88, CHR 0xD8, CHR 0xA7,
     CHR 0xD9, CHR 0x86, CHR 0xD8, CHR 0xAF, CHR 0x20, CHR 0xD8, CHR 0xA8, CHR 0xD9, CHR 0x87,
     CHR 0x20, CHR 0xD8, CHR 0xAF, CHR 0xD9, CHR 0x84, CHR 0xD8, CHR 0xA7, CHR 0xDB, CHR 0x8C,
     CHR 0xD9, CHR 0x84, CHR 0x20, CHR 0xD8, CHR 0xB2, CHR 0xDB, CHR 0x8C, CHR 0xD8, CHR 0xB1,
     CHR 0x20, CHR 0xD8, CHR 0xA8, CHR 0xD8, CHR 0xA7, CHR 0xD8, CHR 0xB4, CHR 0xD8, CHR 0xAF,
     CHR 0x3A]"

definition step_connection_1 :: string where
  \<comment> \<open>line 70, Persian: check your internet connection\<close>
  "step_connection_1 =
     [CHR 0xD8, CHR 0xA7, CHR 0xD8, CHR 0xAA, CHR 0xD8, CHR 0xB5, CHR 0xD8, CHR 0xA7, CHR 0xD9,
     CHR 0x84, CHR 0x20, CHR 0xD8, CHR 0xA7, CHR 0xDB, CHR 0x8C, CHR 0xD9, CHR 0x86, CHR 0xD8,
     CHR 0xAA, CHR 0xD8, CHR 0xB1, CHR 0xD9, CHR 0x86, CHR 0xD8, CHR 0xAA, CHR 0x20, CHR 0xD8,
     CHR 0xAE, CHR 0xD9, CHR 0x88, CHR 0xD8, CHR 0xAF, CHR 0x20, CHR 0xD8, CHR 0xB1, CHR 0xD8,
     CHR 0xA7, CHR 0x20, CHR 0xD8, CHR 0xA8, CHR 0xD8, CHR 0xB1, CHR 0xD8, CHR 0xB1, CHR 0xD8,
     CHR 0xB3, CHR 0xDB, CHR 0x8C, CHR 0x20, CHR 0xDA, CHR 0xA9, CHR 0xD9, CHR 0x86, CHR 0xDB,
     CHR 0x8C, CHR 0xD8, CHR 0xAF, CHR 0x2E]"

definition step_connection_2 :: string where
  \<comment> \<open>line 71, Persian: the service may be temporarily unavailable\<close>
  "step_connection_2 =
     [CHR 0xD9, CHR 0x85, CHR 0xD9, CHR 0x85, CHR 0xDA, CHR 0xA9, CHR 0xD9, CHR 0x86, CHR 0x20,
     CHR 0xD8, CHR 0xA7, CHR 0xD8, CHR 0xB3, CHR 0xD8, CHR 0xAA, CHR 0x20, CHR 0xD8, CHR 0xB3,
     CHR 0xD8, CHR 0xB1, CHR 0xD9, CHR 0x88, CHR 0xDB, CHR 0x8C, CHR 0xD8, CHR 0xB3, CHR 0x20,
     CHR 0xD8, CHR 0xA8, CHR 0xD9, CHR 0x87, CHR 0x20, CHR 0xD8, CHR 0xB7, CHR 0xD9, CHR 0x88,
     CHR 0xD8, CHR 0xB1, CHR 0x20, CHR 0xD9, CHR 0x85, CHR 0xD9, CHR 0x88, CHR 0xD9, CHR 0x82,
     CHR 0xD8, CHR 0xAA, CHR 0x20, CHR 0xD8, CHR 0xAF, CHR 0xD8, CHR 0xB1, CHR 0x20, CHR 0xD8,
     CHR 0xAF, CHR 0xD8, CHR 0xB3, CHR 0xD8, CHR 0xAA, CHR 0xD8, CHR 0xB1, CHR 0xD8, CHR 0xB3,
     CHR 0x20, CHR 0xD9, CHR 0x86, CHR 0xD8, CHR 0xA8, CHR 0xD8, CHR 0xA7, CHR 0xD8, CHR 0xB4,
     CHR 0xD8, CHR 0xAF, CHR 0x2E]"

definition step_connection_3 :: string where
  \<comment> \<open>line 72, Persian: the API key used in the code may be invalid or expired\<close>
  "step_connection_3 =
     [CHR 0xDA, CHR 0xA9, CHR 0xD9, CHR 0x84, CHR 0xDB, CHR 0x8C, CHR 0xD8, CHR 0xAF, CHR 0x20] @
     ''API'' @ [CHR 0x20, CHR 0xD8, CHR 0xA7, CHR 0xD8, CHR 0xB3, CHR 0xD8, CHR 0xAA, CHR 0xD9,
     CHR 0x81, CHR 0xD8, CHR 0xA7, CHR 0xD8, CHR 0xAF, CHR 0xD9, CHR 0x87, CHR 0x20, CHR 0xD8,
     CHR 0xB4, CHR 0xD8, CHR 0xAF, CHR 0xD9, CHR 0x87, CHR 0x20, CHR 0xD8, CHR 0xAF, CHR 0xD8,
     CHR 0xB1, CHR 0x20, CHR 0xDA, CHR 0xA9, CHR 0xD8, CHR 0xAF, CHR 0x20, CHR 0xD9, CHR 0x85,
     CHR 0xD9, CHR 0x85, CHR 0xDA, CHR 0xA9, CHR 0xD9, CHR 0x86, CHR 0x20, CHR 0xD8, CHR 0xA7,
     CHR 0xD8, CHR 0xB3, CHR 0xD8, CHR 0xAA, CHR 0x20, CHR 0xD9, CHR 0x86, CHR 0xD8, CHR 0xA7,
     CHR 0xD9, CHR 0x85, CHR 0xD8, CHR 0xB9, CHR 0xD8, CHR 0xAA, CHR 0xD8, CHR 0xA8, CHR 0xD8,
     CHR 0xB1, CHR 0x20, CHR 0xDB, CHR 0x8C, CHR 0xD8, CHR 0xA7, CHR 0x20, CHR 0xD9, CHR 0x85,
     CHR 0xD9, CHR 0x86, CHR 0xD9, CHR 0x82, CHR 0xD8, CHR 0xB6, CHR 0xDB, CHR 0x8C, CHR 0x20,
     CHR 0xD8, CHR 0xB4, CHR 0xD8, CHR 0xAF, CHR 0xD9, CHR 0x87, CHR 0x20, CHR 0xD8, CHR 0xA8,
     CHR 0xD8, CHR 0xA7, CHR 0xD8, CHR 0xB4, CHR 0xD8, CHR 0xAF, CHR 0x2E]"

definition title_device :: string where
  \<comment> \<open>line 75, Persian: microphone not found\<close>
  "title_device =
     [CHR 0xD9, CHR 0x85, CHR 0xDB, CHR 0x8C, CHR 0xDA, CHR 0xA9, CHR 0xD8, CHR 0xB1, CHR 0xD9,
     CHR 0x88, CHR 0xD9, CHR 0x81, CHR 0xD9, CHR 0x88, CHR 0xD9, CHR 0x86, CHR 0x20, CHR 0xD9,
     CHR 0xBE, CHR 0xDB, CHR 0x8C, CHR 0xD8, CHR 0xAF, CHR 0xD8, CHR 0xA7, CHR 0x20, CHR 0xD9,
     CHR 0x86, CHR 0xD8, CHR 0xB4, CHR 0xD8, CHR 0xAF]"

definition message_device :: string where
  \<comment> \<open>line 76, Persian: no audio input device was detected on your system\<close>
  "message_device =
     [CHR 0xD9, CHR 0x87, CHR 0xDB, CHR 0x8C, CHR 0xDA, CHR 0x86, CHR 0x20, CHR 0xD8, CHR 0xAF,
     CHR 0xD8, CHR 0xB3, CHR 0xD8, CHR 0xAA, CHR 0xDA, CHR 0xAF, CHR 0xD8, CHR 0xA7, CHR 0xD9,
     CHR 0x87, CHR 0x20, CHR 0xD9, CHR 0x88, CHR 0xD8, CHR 0xB1, CHR 0xD9, CHR 0x88, CHR 0xD8,
     CHR 0xAF, CHR 0xDB, CHR 0x8C, CHR 0x20, CHR 0xD8, CHR 0xB5, CHR 0xD9, CHR 0x88, CHR 0xD8,
     CHR 0xAA, CHR 0xDB, CHR 0x8C, CHR 0x20, CHR 0x28, CHR 0xD9, CHR 0x85, CHR 0xDB, CHR 0x8C,
     CHR 0xDA, CHR 0xA9, CHR 0xD8, CHR 0xB1, CHR 0xD9, CHR 0x88, CHR 0xD9, CHR 0x81, CHR 0xD9,
     CHR 0x88, CHR 0xD9, CHR 0x86, CHR 0x29, CHR 0x20, CHR 0xD8, CHR 0xA8, CHR 0xD8, CHR 0xB1,
     CHR 0x20, CHR 0xD8, CHR 0xB1, CHR 0xD9, CHR 0x88, CHR 0xDB, CHR 0x8C, CHR 0x20, CHR 0xD8,
     CHR 0xB3, CHR 0xDB, CHR 0x8C, CHR 0xD8, CHR 0xB3, CHR 0xD8, CHR 0xAA, CHR 0xD9, CHR 0x85,
     CHR 0x20, CHR 0xD8, CHR 0xB4, CHR 0xD9, CHR 0x85, CHR 0xD8, CHR 0xA7, CHR 0x20, CHR 0xD8,
     CHR 0xB4, CHR 0xD9, CHR 0x86, CHR 0xD8, CHR 0xA7, CHR 0xD8, CHR 0xB3, CHR 0xD8, CHR 0xA7,
     CHR 0xDB, CHR 0x8C, CHR 0xDB, CHR 0x8C, CHR 0x20, CHR 0xD9, CHR 0x86, CHR 0xD8, CHR 0xB4,
     CHR 0xD8, CHR 0xAF, CHR 0x2E]"

definition step_device_1 :: string where
  \<comment> \<open>line 78, Persian: make sure the microphone is properly connected\<close>
  "step_device_1 =
     [CHR 0xD8, CHR 0xA7, CHR 0xD8, CHR 0xB7, CHR 0xD9, CHR 0x85, CHR 0xDB, CHR 0x8C, CHR 0xD9,
     CHR 0x86, CHR 0xD8, CHR 0xA7, CHR 0xD9, CHR 0x86, CHR 0x20, CHR 0xD8, CHR 0xAD, CHR 0xD8,
     CHR 0xA7, CHR 0xD8, CHR 0xB5, CHR 0xD9, CHR 0x84, CHR 0x20, CHR 0xDA, CHR 0xA9, CHR 0xD9,
     CHR 0x86, CHR 0xDB, CHR 0x8C, CHR 0xD8, CHR 0xAF, CHR 0x20, CHR 0xDA, CHR 0xA9, CHR 0xD9,
     CHR 0x87, CHR 0x20, CHR 0xD9, CHR 0x85, CHR 0xDB, CHR 0x8C, CHR 0xDA, CHR 0xA9, CHR 0xD8,
     CHR 0xB1, CHR 0xD9, CHR 0x88, CHR 0xD9, CHR 0x81, CHR 0xD9, CHR 0x88, CHR 0xD9, CHR 0x86,
     CHR 0x20, CHR 0xD8, CHR 0xA8, CHR 0xD9, CHR 0x87, CHR 0x20, CHR 0xD8, CHR 0xAF, CHR 0xD8,
     CHR 0xB1, CHR 0xD8, CHR 0xB3, CHR 0xD8, CHR 0xAA, CHR 0xDB, CHR 0x8C, CHR 0x20, CHR 0xD8,
     CHR 0xA8, CHR 0xD9, CHR 0x87, CHR 0x20, CHR 0xD8, CHR 0xAF, CHR 0xD8, CHR 0xB3, CHR 0xD8,
     CHR 0xAA, CHR 0xDA, CHR 0xAF, CHR 0xD8, CHR 0xA7, CHR 0xD9, CHR 0x87, CHR 0x20, CHR 0xD8,
     CHR 0xB4, CHR 0xD9, CHR 0x85, CHR 0xD8, CHR 0xA7, CHR 0x20, CHR 0xD9, CHR 0x85, CHR 0xD8,
     CHR 0xAA, CHR 0xD8, CHR 0xB5, CHR 0xD9, CHR 0x84, CHR 0x20, CHR 0xD8, CHR 0xA7, CHR 0xD8,
     CHR 0xB3, CHR 0xD8, CHR 0xAA, CHR 0x2E]"

definition step_device_2 :: string where
  \<comment> \<open>line 79, Persian: unplug and reconnect an external microphone\<close>
  "step_device_2 =
     [CHR 0xD8, CHR 0xA7, CHR 0xDA, CHR 0xAF, CHR 0xD8, CHR 0xB1, CHR 0x20, CHR 0xD8, CHR 0xA7,
     CHR 0xD8, CHR 0xB2, CHR 0x20, CHR 0xD9, CHR 0x85, CHR 0xDB, CHR 0x8C, CHR 0xDA, CHR 0xA9,
     CHR 0xD8, CHR 0xB1, CHR 0xD9, CHR 0x88, CHR 0xD9, CHR 0x81, CHR 0xD9, CHR 0x88, CHR 0xD9,
     CHR 0x86, CHR 0x20, CHR 0xD8, CHR 0xAE, CHR 0xD8, CHR 0xA7, CHR 0xD8, CHR 0xB1, CHR 0xD8,
     CHR 0xAC, CHR 0xDB, CHR 0x8C, CHR 0x20, CHR 0xD8, CHR 0xA7, CHR 0xD8, CHR 0xB3, CHR 0xD8,
     CHR 0xAA, CHR 0xD9, CHR 0x81, CHR 0xD8, CHR 0xA7, CHR 0xD8, CHR 0xAF, CHR 0xD9, CHR 0x87,
     CHR 0x20, CHR 0xD9, CHR 0x85, CHR 0xDB, CHR 0x8C, CHR 0xE2, CHR 0x80, CHR 0x8C, CHR 0xDA,
     CHR 0xA9, CHR 0xD9, CHR 0x86, CHR 0xDB, CHR 0x8C, CHR 0xD8, CHR 0xAF, CHR 0xD8, CHR 0x8C,
     CHR 0x20, CHR 0xD8, CHR 0xA2, CHR 0xD9, CHR 0x86, CHR 0x20, CHR 0xD8, CHR 0xB1, CHR 0xD8,
     CHR 0xA7, CHR 0x20, CHR 0xD8, CHR 0xAC, CHR 0xD8, CHR 0xAF, CHR 0xD8, CHR 0xA7, CHR 0x20,
     CHR 0xDA, CHR 0xA9, CHR 0xD8, CHR 0xB1, CHR 0xD8, CHR 0xAF, CHR 0xD9, CHR 0x87, CHR 0x20,
     CHR 0xD9, CHR 0x88, CHR 0x20, CHR 0xD8, CHR 0xAF, CHR 0xD9, CHR 0x88, CHR 0xD8, CHR 0xA8,
     CHR 0xD8, CHR 0xA7, CHR 0xD8, CHR 0xB1, CHR 0xD9, CHR 0x87, CHR 0x20, CHR 0xD9, CHR 0x88,
     CHR 0xD8, CHR 0xB5, CHR 0xD9, CHR 0x84, CHR 0x20, CHR 0xDA, CHR 0xA9, CHR 0xD9, CHR 0x86,
     CHR 0xDB, CHR 0x8C, CHR 0xD8, CHR 0xAF, CHR 0x2E]"

definition step_device_3 :: string where
  \<comment> \<open>line 80, Persian: check and update your audio drivers\<close>
  "step_device_3 =
     [CHR 0xD8, CHR 0xAF, CHR 0xD8, CHR 0xB1, CHR 0xD8, CHR 0xA7, CHR 0xDB, CHR 0x8C, CHR 0xD9,
     CHR 0x88, CHR 0xD8, CHR 0xB1, CHR 0xD9, CHR 0x87, CHR 0xD8, CHR 0xA7, CHR 0xDB, CHR 0x8C,
     CHR 0x20, CHR 0xD8, CHR 0xB5, CHR 0xD9, CHR 0x88, CHR 0xD8, CHR 0xAA, CHR 0xDB, CHR 0x8C,
     CHR 0x20, CHR 0xD8, CHR 0xAE, CHR 0xD9, CHR 0x88, CHR 0xD8, CHR 0xAF, CHR 0x20, CHR 0xD8,
     CHR 0xB1, CHR 0xD8, CHR 0xA7, CHR 0x20, CHR 0xD8, CHR 0xA8, CHR 0xD8, CHR 0xB1, CHR 0xD8,
     CHR 0xB1, CHR 0xD8, CHR 0xB3, CHR 0xDB, CHR 0x8C, CHR 0x20, CHR 0xD9, CHR 0x88, CHR 0x20,
     CHR 0xD8, CHR 0xA8, CHR 0xD9, CHR 0x87, CHR 0xE2, CHR 0x80, CHR 0x8C, CHR 0xD8, CHR 0xB1,
     CHR 0xD9, CHR 0x88, CHR 0xD8, CHR 0xB2, CHR 0xD8, CHR 0xB1, CHR 0xD8, CHR 0xB3, CHR 0xD8,
     CHR 0xA7, CHR 0xD9, CHR 0x86, CHR 0xDB, CHR 0x8C, CHR 0x20, CHR 0xDA, CHR 0xA9, CHR 0xD9,
     CHR 0x86, CHR 0xDB, CHR 0x8C, CHR 0xD8, CHR 0xAF, CHR 0x2E]"

definition content_request_prefix :: string where
  \<comment> \<open>line 187, Persian: content request, followed by a colon and a space\<close>
  "content_request_prefix =
     [CHR 0xD8, CHR 0xAF, CHR 0xD8, CHR 0xB1, CHR 0xD8, CHR 0xAE, CHR 0xD9, CHR 0x88, CHR 0xD8,
     CHR 0xA7, CHR 0xD8, CHR 0xB3, CHR 0xD8, CHR 0xAA, CHR 0x20, CHR 0xD9, CHR 0x85, CHR 0xD8,
     CHR 0xAD, CHR 0xD8, CHR 0xAA, CHR 0xD9, CHR 0x88, CHR 0xD8, CHR 0xA7, CHR 0x3A, CHR 0x20]"

definition image_request_prefix :: string where
  \<comment> \<open>line 195, Persian: image request, followed by a colon and a space\<close>
  "image_request_prefix =
     [CHR 0xD8, CHR 0xAF, CHR 0xD8, CHR 0xB1, CHR 0xD8, CHR 0xAE, CHR 0xD9, CHR 0x88, CHR 0xD8,
     CHR 0xA7, CHR 0xD8, CHR 0xB3, CHR 0xD8, CHR 0xAA, CHR 0x20, CHR 0xD8, CHR 0xAA, CHR 0xD8,
     CHR 0xB5, CHR 0xD9, CHR 0x88, CHR 0xDB, CHR 0x8C, CHR 0xD8, CHR 0xB1, CHR 0x3A, CHR 0x20]"

definition apology :: string where
  \<comment> \<open>line 212, Persian: unfortunately a problem occurred while carrying out the request\<close>
  "apology =
     [CHR 0xD9, CHR 0x85, CHR 0xD8, CHR 0xAA, CHR 0xD8, CHR 0xA7, CHR 0xD8, CHR 0xB3, CHR 0xD9,
     CHR 0x81, CHR 0xD8, CHR 0xA7, CHR 0xD9, CHR 0x86, CHR 0xD9, CHR 0x87, CHR 0x20, CHR 0xD8,
     CHR 0xAF, CHR 0xD8, CHR 0xB1, CHR 0x20, CHR 0xD8, CHR 0xA7, CHR 0xD8, CHR 0xAC, CHR 0xD8,
     CHR 0xB1, CHR 0xD8, CHR 0xA7, CHR 0xDB, CHR 0x8C, CHR 0x20, CHR 0xD8, CHR 0xAF, CHR 0xD8,
     CHR 0xB1, CHR 0xD8, CHR 0xAE, CHR 0xD9, CHR 0x88, CHR 0xD8, CHR 0xA7, CHR 0xD8, CHR 0xB3,
     CHR 0xD8, CHR 0xAA, CHR 0x20, CHR 0xD9, CHR 0x85, CHR 0xD8, CHR 0xB4, CHR 0xDA, CHR 0xA9,
     CHR 0xD9, CHR 0x84, CHR 0xDB, CHR 0x8C, CHR 0x20, CHR 0xD9, CHR 0xBE, CHR 0xDB, CHR 0x8C,
     CHR 0xD8, CHR 0xB4, CHR 0x20, CHR 0xD8, CHR 0xA2, CHR 0xD9, CHR 0x85, CHR 0xD8, CHR 0xAF,
     CHR 0x2E]"

definition title_disconnected :: string where
  \<comment> \<open>line 311, Persian: connection lost\<close>
  "title_disconnected =
     [CHR 0xD8, CHR 0xA7, CHR 0xD8, CHR 0xB1, CHR 0xD8, CHR 0xAA, CHR 0xD8, CHR 0xA8, CHR 0xD8,
     CHR 0xA7, CHR 0xD8, CHR 0xB7, CHR 0x20, CHR 0xD9, CHR 0x82, CHR 0xD8, CHR 0xB7, CHR 0xD8,
     CHR 0xB9, CHR 0x20, CHR 0xD8, CHR 0xB4, CHR 0xD8, CHR 0xAF]"

definition message_disconnected :: string where
  \<comment> \<open>line 312, Persian: the connection to the AI server was cut unexpectedly\<close>
  "message_disconnected =
     [CHR 0xD8, CHR 0xA7, CHR 0xD8, CHR 0xB1, CHR 0xD8, CHR 0xAA, CHR 0xD8, CHR 0xA8, CHR 0xD8,
     CHR 0xA7, CHR 0xD8, CHR 0xB7, CHR 0x20, CHR 0xD8, CHR 0xA8, CHR 0xD8, CHR 0xA7, CHR 0x20,
     CHR 0xD8, CHR 0xB3, CHR 0xD8, CHR 0xB1, CHR 0xD9, CHR 0x88, CHR 0xD8, CHR 0xB1, CHR 0x20,
     CHR 0xD9, CHR 0x87, CHR 0xD9, CHR 0x88, CHR 0xD8, CHR 0xB4, CHR 0x20, CHR 0xD9, CHR 0x85,
     CHR 0xD8, CHR 0xB5, CHR 0xD9, CHR 0x86, CHR 0xD9, CHR 0x88, CHR 0xD8, CHR 0xB9, CHR 0xDB,
     CHR 0x8C, CHR 0x20, CHR 0xD8, CHR 0xA8, CHR 0xD9, CHR 0x87, CHR 0x20, CHR 0xD8, CHR 0xB7,
     CHR 0xD9, CHR 0x88, CHR 0xD8, CHR 0xB1, CHR 0x20, CHR 0xD9, CHR 0x86, CHR 0xD8, CHR 0xA7,
     CHR 0xDA, CHR 0xAF, CHR 0xD9, CHR 0x87, CHR 0xD8, CHR 0xA7, CHR 0xD9, CHR 0x86, CHR 0xDB,
     CHR 0x8C, CHR 0x20, CHR 0xD9, CHR 0x82, CHR 0xD8, CHR 0xB7, CHR 0xD8, CHR 0xB9, CHR 0x20,
     CHR 0xD8, CHR 0xB4, CHR 0xD8, CHR 0xAF, CHR 0x2E]"

definition step_disconnected_1 :: string where
  \<comment> \<open>line 314, Persian: check your internet connection\<close>
  "step_disconnected_1 =
     [CHR 0xD8, CHR 0xA7, CHR 0xD8, CHR 0xAA, CHR 0xD8, CHR 0xB5, CHR 0xD8, CHR 0xA7, CHR 0xD9,
     CHR 0x84, CHR 0x20, CHR 0xD8, CHR 0xA7, CHR 0xDB, CHR 0x8C, CHR 0xD9, CHR 0x86, CHR 0xD8,
     CHR 0xAA, CHR 0xD8, CHR 0xB1, CHR 0xD9, CHR 0x86, CHR 0xD8, CHR 0xAA, CHR 0x20, CHR 0xD8,
     CHR 0xAE, CHR 0xD9, CHR 0x88, CHR 0xD8, CHR 0xAF, CHR 0x20, CHR 0xD8, CHR 0xB1, CHR 0xD8,
     CHR 0xA7, CHR 0x20, CHR 0xD8, CHR 0xA8, CHR 0xD8, CHR 0xB1, CHR 0xD8, CHR 0xB1, CHR 0xD8,
     CHR 0xB3, CHR 0xDB, CHR 0x8C, CHR 0x20, CHR 0xDA, CHR 0xA9, CHR 0xD9, CHR 0x86, CHR 0xDB,
     CHR 0x8C, CHR 0xD8, CHR 0xAF, CHR 0x2E]"

definition step_disconnected_2 :: string where
  \<comment> \<open>line 315, Persian: to continue click the retry button\<close>
  "step_disconnected_2 =
     [CHR 0xD8, CHR 0xA8, CHR 0xD8, CHR 0xB1, CHR 0xD8, CHR 0xA7, CHR 0xDB, CHR 0x8C, CHR 0x20,
     CHR 0xD8, CHR 0xA7, CHR 0xD8, CHR 0xAF, CHR 0xD8, CHR 0xA7, CHR 0xD9, CHR 0x85, CHR 0xD9,
     CHR 0x87, CHR 0xD8, CHR 0x8C, CHR 0x20, CHR 0xD8, CHR 0xB1, CHR 0xD9, CHR 0x88, CHR 0xDB,
     CHR 0x8C, CHR 0x20, CHR 0xD8, CHR 0xAF, CHR 0xDA, CHR 0xA9, CHR 0xD9, CHR 0x85, CHR 0xD9,
     CHR 0x87, CHR 0x20, CHR 0x22, CHR 0xD8, CHR 0xAA, CHR 0xD9, CHR 0x84, CHR 0xD8, CHR 0xA7,
     CHR 0xD8, CHR 0xB4, CHR 0x20, CHR 0xD9, CHR 0x85, CHR 0xD8, CHR 0xAC, CHR 0xD8, CHR 0xAF,
     CHR 0xD8, CHR 0xAF, CHR 0x22, CHR 0x20, CHR 0xDA, CHR 0xA9, CHR 0xD9, CHR 0x84, CHR 0xDB,
     CHR 0x8C, CHR 0xDA, CHR 0xA9, CHR 0x20, CHR 0xDA, CHR 0xA9, CHR 0xD9, CHR 0x86, CHR 0xDB,
     CHR 0x8C, CHR 0xD8, CHR 0xAF, CHR 0x2E]"

section \<open>The error classifier\<close>

text \<open>The three tests of \<^verbatim>\<open>mapErrorToAppError\<close>, on the name and the lower-cased message.\<close>

definition permissionSignature :: "string \<Rightarrow> string \<Rightarrow> bool" where
  "permissionSignature name lowerCaseMessage \<longleftrightarrow>
     includes_str lowerCaseMessage ''permission'' \<or> name = ''NotAllowedError''"

definition connectionSignature :: "string \<Rightarrow> bool" where
  "connectionSignature lowerCaseMessage \<longleftrightarrow>
     includes_str lowerCaseMessage ''api key'' \<or> includes_str lowerCaseMessage ''400'' \<or>
     includes_str lowerCaseMessage ''403'' \<or> includes_str lowerCaseMessage ''network'' \<or>
     includes_str lowerCaseMessage ''cors''"

definition deviceSignature :: "string \<Rightarrow> string \<Rightarrow> bool" where
  "deviceSignature name lowerCaseMessage \<longleftrightarrow>
     includes_str lowerCaseMessage ''device'' \<or> name = ''NotFoundError''"

definition permissionError :: AppError where
  "permissionError =
     \<lparr>title = title_permission, message = message_permission,
      steps = [step_permission_1, step_permission_2, step_permission_3]\<rparr>"

definition connectionError :: AppError where
  "connectionError =
     \<lparr>title = title_connection, message = message_connection,
      steps = [step_connection_1, step_connection_2, step_connection_3]\<rparr>"

definition deviceError :: AppError where
  "deviceError =
     \<lparr>title = title_device, message = message_device,
      steps = [step_device_1, step_device_2, step_device_3]\<rparr>"

text \<open>The parameter \<open>toLowerCase\<close> is the lower-casing of the runtime.\<close>

fun mapErrorToAppError :: "(string \<Rightarrow> string) \<Rightarrow> thrown \<Rightarrow> AppError" where
  "mapErrorToAppError toLowerCase (ErrorObject name msg) =
     (let lowerCaseMessage = toLowerCase msg in
      if permissionSignature name lowerCaseMessage then permissionError
      else if connectionSignature lowerCaseMessage then connectionError
      else if deviceSignature name lowerCaseMessage then deviceError
      else \<lparr>title = title_unknown, message = msg, steps = []\<rparr>)"
| "mapErrorToAppError toLowerCase OtherValue =
     \<lparr>title = title_unknown, message = message_unknown, steps = []\<rparr>"

section \<open>The state of the hook\<close>

text \<open>
  The hook keeps React state (\<^verbatim>\<open>sessionState\<close>, \<^verbatim>\<open>history\<close>, \<^verbatim>\<open>error\<close>, \<^verbatim>\<open>isThinking\<close>,
  \<^verbatim>\<open>isSpeaking\<close>) and reference cells (the fields ending in \<^verbatim>\<open>Ref\<close>).  The cells refer to
  objects of the browser and of the client library: audio contexts, audio nodes, microphone
  tracks, scheduled sources, interval timers and the promise of the live session.  An object is
  an address (a number); what the hook can observe or change of the objects is kept in the last
  fields of the record.

  A promise is pending, fulfilled or rejected.  The only reactions the hook ever registers on
  the session promise send one message over the session, so a pending promise carries the
  messages of its registered reactions, in registration order.
\<close>

datatype AudioContextState = Suspended | Running | Closed

datatype outbound =
    RealtimeInput string
  | ToolResponse string string string

datatype promise = Pending "outbound list" | Fulfilled | Rejected

datatype update =
    OnToolCall
  | SetSessionState SessionState
  | SetHistory Message
  | SetError "AppError option"
  | SetIsThinking bool
  | SetIsSpeaking bool

record hook =
  sessionState :: SessionState
  history :: "Message list"
  error :: "AppError option"
  isThinking :: bool
  isSpeaking :: bool
  updates :: "update list"
  sessionPromiseRef :: "nat option"
  streamRef :: "nat list option"
  inputAudioContextRef :: "nat option"
  outputAudioContextRef :: "nat option"
  outputGainNodeRef :: "nat option"
  scriptProcessorRef :: "nat option"
  nextStartTimeRef :: real
  audioSourcesRef :: "nat set"
  aiRef :: bool
  speakingCheckIntervalRef :: "nat option"
  isClosedRef :: bool
  sessionStateRef :: SessionState
  contexts :: "nat \<Rightarrow> AudioContextState"
  liveTracks :: "nat set"
  connectedNodes :: "nat set"
  started :: "(real \<times> real) list"
  playing :: "nat set"
  activeIntervals :: "nat set"
  promises :: "nat \<Rightarrow> promise"
  sent :: "outbound list"
  nextId :: nat

text \<open>
  \<^item> \<open>updates\<close> lists, in order, every call of a React state setter and of the \<^verbatim>\<open>onToolCall\<close>
    property; the five state fields hold the value last set.
  \<^item> \<open>streamRef\<close> holds the microphone stream as the list of its tracks.
  \<^item> \<open>contexts\<close> gives the state of every audio context, \<open>liveTracks\<close> the tracks not yet
    stopped, \<open>connectedNodes\<close> the audio nodes with a connection made by the hook,
    \<open>playing\<close> the sources started and neither stopped nor ended, \<open>activeIntervals\<close> the
    interval timers not yet cleared.
  \<^item> \<open>started\<close> lists every call \<^verbatim>\<open>source.start(startTime)\<close> as the pair of the start time and
    the duration of the buffer of the source.
  \<^item> \<open>sent\<close> lists the messages handed to the live session, in order.
  \<^item> \<open>nextId\<close> is the next unused address.
\<close>

subsection \<open>State setters, the state mirror and the session promise\<close>

definition setSessionState :: "SessionState \<Rightarrow> hook \<Rightarrow> hook" where
  "setSessionState v s = s\<lparr>sessionState := v, updates := updates s @ [SetSessionState v]\<rparr>"

definition setHistory :: "Message \<Rightarrow> hook \<Rightarrow> hook" where
  "setHistory m s = s\<lparr>history := m # history s, updates := updates s @ [SetHistory m]\<rparr>"

definition setError :: "AppError option \<Rightarrow> hook \<Rightarrow> hook" where
  "setError v s = s\<lparr>error := v, updates := updates s @ [SetError v]\<rparr>"

definition setIsThinking :: "bool \<Rightarrow> hook \<Rightarrow> hook" where
  "setIsThinking v s = s\<lparr>isThinking := v, updates := updates s @ [SetIsThinking v]\<rparr>"

definition setIsSpeaking :: "bool \<Rightarrow> hook \<Rightarrow> hook" where
  "setIsSpeaking v s = s\<lparr>isSpeaking := v, updates := updates s @ [SetIsSpeaking v]\<rparr>"

definition onToolCall :: "hook \<Rightarrow> hook" where
  "onToolCall s = s\<lparr>updates := updates s @ [OnToolCall]\<rparr>"

text \<open>
  The state setters take effect with the next render; the five state fields hold the value
  last set, which is the value the next render shows.  The effect of lines 111 to 113 copies
  the session state into \<^verbatim>\<open>sessionStateRef\<close> after a render; no callback writes that cell.
\<close>

definition syncSessionStateRef :: "hook \<Rightarrow> hook" where
  "syncSessionStateRef s = s\<lparr>sessionStateRef := sessionState s\<rparr>"

definition clearError :: "hook \<Rightarrow> hook" where
  "clearError s = setError None s"

text \<open>
  \<^verbatim>\<open>sessionPromiseRef.current?.then((session) => session.send...(m))\<close>: nothing happens when the
  cell is empty; on a fulfilled promise the reaction runs and sends; on a pending promise the
  reaction is registered and waits; on a rejected promise it never runs.
\<close>

definition thenSend :: "outbound \<Rightarrow> hook \<Rightarrow> hook" where
  "thenSend m s =
     (case sessionPromiseRef s of
        None \<Rightarrow> s
      | Some p \<Rightarrow>
          (case promises s p of
             Pending waiting \<Rightarrow> s\<lparr>promises := (promises s)(p := Pending (waiting @ [m]))\<rparr>
           | Fulfilled \<Rightarrow> s\<lparr>sent := sent s @ [m]\<rparr>
           | Rejected \<Rightarrow> s))"

text \<open>
  The client library settles the session promise: on fulfilment the registered reactions run in
  registration order; on rejection they are discarded.  A settled promise stays as it is.
\<close>

definition fulfilSession :: "nat \<Rightarrow> hook \<Rightarrow> hook" where
  "fulfilSession p s =
     (case promises s p of
        Pending waiting \<Rightarrow> s\<lparr>promises := (promises s)(p := Fulfilled), sent := sent s @ waiting\<rparr>
      | Fulfilled \<Rightarrow> s
      | Rejected \<Rightarrow> s)"

definition rejectSession :: "nat \<Rightarrow> hook \<Rightarrow> hook" where
  "rejectSession p s =
     (case promises s p of
        Pending waiting \<Rightarrow> s\<lparr>promises := (promises s)(p := Rejected)\<rparr>
      | Fulfilled \<Rightarrow> s
      | Rejected \<Rightarrow> s)"

subsection \<open>cleanup\<close>

text \<open>
  Every statement of \<^verbatim>\<open>cleanup\<close> is guarded by a test of the cell it uses, and the promise of
  \<^verbatim>\<open>close()\<close> has its rejection caught, so no statement can raise: the model is a total function
  on states with no error result.  Console output is not modelled.
\<close>

definition disconnectScriptProcessor :: "hook \<Rightarrow> hook" where
  "disconnectScriptProcessor s =
     (case scriptProcessorRef s of
        Some n \<Rightarrow> s\<lparr>connectedNodes := connectedNodes s - {n}, scriptProcessorRef := None\<rparr>
      | None \<Rightarrow> s)"

definition disconnectOutputGain :: "hook \<Rightarrow> hook" where
  "disconnectOutputGain s =
     (case outputGainNodeRef s of
        Some n \<Rightarrow> s\<lparr>connectedNodes := connectedNodes s - {n}, outputGainNodeRef := None\<rparr>
      | None \<Rightarrow> s)"

definition closeContext :: "nat option \<Rightarrow> hook \<Rightarrow> hook" where
  "closeContext ref s =
     (case ref of
        Some c \<Rightarrow> if contexts s c \<noteq> Closed then s\<lparr>contexts := (contexts s)(c := Closed)\<rparr> else s
      | None \<Rightarrow> s)"

definition closeInputContext :: "hook \<Rightarrow> hook" where
  "closeInputContext s = (closeContext (inputAudioContextRef s) s)\<lparr>inputAudioContextRef := None\<rparr>"

definition closeOutputContext :: "hook \<Rightarrow> hook" where
  "closeOutputContext s =
     (closeContext (outputAudioContextRef s) s)\<lparr>outputAudioContextRef := None\<rparr>"

definition stopTracks :: "hook \<Rightarrow> hook" where
  "stopTracks s =
     (case streamRef s of
        Some tracks \<Rightarrow> s\<lparr>liveTracks := liveTracks s - set tracks, streamRef := None\<rparr>
      | None \<Rightarrow> s)"

definition stopSources :: "hook \<Rightarrow> hook" where
  "stopSources s =
     s\<lparr>playing := playing s - audioSourcesRef s, audioSourcesRef := {}, nextStartTimeRef := 0\<rparr>"

definition clearSpeakingCheck :: "hook \<Rightarrow> hook" where
  "clearSpeakingCheck s =
     (case speakingCheckIntervalRef s of
        Some t \<Rightarrow> s\<lparr>activeIntervals := activeIntervals s - {t}, speakingCheckIntervalRef := None\<rparr>
      | None \<Rightarrow> s)"

definition cleanup :: "hook \<Rightarrow> hook" where
  "cleanup s =
     (setIsSpeaking False
        (clearSpeakingCheck
           (stopSources
              (stopTracks
                 (closeOutputContext
                    (closeInputContext
                       (disconnectOutputGain
                          (disconnectScriptProcessor s))))))))\<lparr>sessionPromiseRef := None\<rparr>"

subsection \<open>The conversation history\<close>

text \<open>
  The string values of the \<^verbatim>\<open>Role\<close> enumeration are declared outside the hook; the functions
  that build a history entry take the rendering \<open>roleText\<close> of a role as a parameter.  The
  reading of \<^verbatim>\<open>Date.now()\<close> is the parameter \<open>now\<close>.
\<close>

definition addMessageToHistory ::
  "(Role \<Rightarrow> string) \<Rightarrow> nat \<Rightarrow> string \<Rightarrow> Role \<Rightarrow> ContentType \<Rightarrow> hook \<Rightarrow> hook" where
  "addMessageToHistory roleText now text role type s =
     setHistory
       \<lparr>msg_id = roleText role @ ''-'' @ string_of_nat now,
        msg_role = role, msg_text = text, msg_type = type\<rparr> s"

text \<open>The response of the text model: its \<^verbatim>\<open>text\<close>, which may be undefined.\<close>

type_synonym GenerateContentResponse = "string option"

definition handleProModelResponse ::
  "(Role \<Rightarrow> string) \<Rightarrow> nat \<Rightarrow> GenerateContentResponse \<Rightarrow> hook \<Rightarrow> hook" where
  "handleProModelResponse roleText now response s =
     (case response of
        None \<Rightarrow> s
      | Some text \<Rightarrow>
          if text = [] then s
          else addMessageToHistory roleText now text MODEL
                 (if includes_str text ''```'' then CODE else TEXT) s)"

text \<open>
  The response of the image model is untyped in the hook.  It may lack \<^verbatim>\<open>generatedImages\<close>;
  a generated image may lack its \<^verbatim>\<open>image\<close>; an image may lack its \<^verbatim>\<open>imageBytes\<close>.  Reading a
  property of an undefined value raises a \<^verbatim>\<open>TypeError\<close>, whose message nothing in the hook
  reads.
\<close>

type_synonym GeneratedImage = "string option option"

type_synonym GenerateImagesResponse = "GeneratedImage list option"

definition typeError :: thrown where
  "typeError = ErrorObject ''TypeError'' []"

definition handleImageModelResponse ::
  "(Role \<Rightarrow> string) \<Rightarrow> nat \<Rightarrow> GenerateImagesResponse \<Rightarrow> hook \<Rightarrow> thrown option \<times> hook" where
  "handleImageModelResponse roleText now response s =
     (case response of
        None \<Rightarrow> (Some typeError, s)
      | Some [] \<Rightarrow> (Some typeError, s)
      | Some (None # _) \<Rightarrow> (Some typeError, s)
      | Some (Some base64Image # _) \<Rightarrow>
          (case base64Image of
             None \<Rightarrow> (None, s)
           | Some bytes \<Rightarrow>
               if bytes = [] then (None, s)
               else (None, addMessageToHistory roleText now
                             (''data:image/jpeg;base64,'' @ bytes) MODEL IMAGE s)))"

subsection \<open>Tool calls\<close>

text \<open>
  A function call of a tool-call event: its id, its name and its arguments.  The arguments may
  be absent; when present they carry the prompt.
\<close>

record FunctionCall =
  fc_id :: string
  fc_name :: string
  fc_args :: "string option"

text \<open>
  What the world outside the hook answers while one function call is executed: the two readings
  of \<^verbatim>\<open>Date.now()\<close> (when the request entry is appended, and when the generated entry or the
  apology is appended), and the outcome of the awaited call of the text model and of the image
  model (\<open>Inl\<close> when the promise rejects).
\<close>

record invocation_env =
  requestClock :: nat
  resultClock :: nat
  generateContent :: "thrown + GenerateContentResponse"
  generateImages :: "thrown + GenerateImagesResponse"

definition sendToolResponse :: "FunctionCall \<Rightarrow> string \<Rightarrow> hook \<Rightarrow> hook" where
  "sendToolResponse fc toolResponseResult s =
     thenSend (ToolResponse (fc_id fc) (fc_name fc) toolResponseResult) s"

text \<open>
  The \<^verbatim>\<open>try\<close> block of one iteration.  The result is the value thrown, if any, and the state
  reached: what was done before a throw stays done.
\<close>

definition tryBlock ::
  "(Role \<Rightarrow> string) \<Rightarrow> invocation_env \<Rightarrow> FunctionCall \<Rightarrow> hook \<Rightarrow> thrown option \<times> hook" where
  "tryBlock roleText env fc s =
     (if fc_name fc = ''generateContent'' then
        (case fc_args fc of
           None \<Rightarrow> (Some typeError, s)
         | Some prompt \<Rightarrow>
             (let s1 = addMessageToHistory roleText (requestClock env)
                         (content_request_prefix @ prompt) USER TEXT s
              in if \<not> aiRef s1 then (Some typeError, s1)
                 else (case generateContent env of
                         Inl e \<Rightarrow> (Some e, s1)
                       | Inr response \<Rightarrow>
                           (None, sendToolResponse fc ''Content generated successfully.''
                                    (handleProModelResponse roleText (resultClock env)
                                       response s1)))))
      else if fc_name fc = ''generateImage'' then
        (case fc_args fc of
           None \<Rightarrow> (Some typeError, s)
         | Some prompt \<Rightarrow>
             (let s1 = addMessageToHistory roleText (requestClock env)
                         (image_request_prefix @ prompt) USER TEXT s
              in if \<not> aiRef s1 then (Some typeError, s1)
                 else (case generateImages env of
                         Inl e \<Rightarrow> (Some e, s1)
                       | Inr response \<Rightarrow>
                           (case handleImageModelResponse roleText (resultClock env)
                                   response s1 of
                              (Some e, s2) \<Rightarrow> (Some e, s2)
                            | (None, s2) \<Rightarrow>
                                (None, sendToolResponse fc ''Image generated successfully.''
                                         s2)))))
      else (None, sendToolResponse fc ''Sorry, I couldn't do that.'' s))"

text \<open>One iteration of the loop: \<^verbatim>\<open>try\<close>, \<^verbatim>\<open>catch\<close> and \<^verbatim>\<open>finally\<close>.\<close>

definition invoke ::
  "(Role \<Rightarrow> string) \<Rightarrow> invocation_env \<Rightarrow> FunctionCall \<Rightarrow> hook \<Rightarrow> hook" where
  "invoke roleText env fc s =
     setIsThinking False
       (case tryBlock roleText env fc s of
          (None, s') \<Rightarrow> s'
        | (Some e, s') \<Rightarrow> addMessageToHistory roleText (resultClock env) apology MODEL TEXT s')"

fun functionCallsLoop ::
  "(Role \<Rightarrow> string) \<Rightarrow> (FunctionCall \<Rightarrow> invocation_env) \<Rightarrow> FunctionCall list \<Rightarrow> hook \<Rightarrow> hook"
where
  "functionCallsLoop roleText remote [] s = s"
| "functionCallsLoop roleText remote (fc # fcs) s =
     functionCallsLoop roleText remote fcs (invoke roleText (remote fc) fc s)"

subsection \<open>Playback\<close>

text \<open>
  Lines 225 to 232: a source is created for the decoded buffer, connected, started at the later
  of the playback cursor and the clock of the output context, and added to the live set; the
  cursor moves to the sum of the start time and the duration of the buffer.  The parameter
  \<open>addition\<close> is the addition of the runtime.
\<close>

definition scheduleSource :: "(real \<Rightarrow> real \<Rightarrow> real) \<Rightarrow> real \<Rightarrow> real \<Rightarrow> hook \<Rightarrow> hook" where
  "scheduleSource addition currentTime duration s =
     (let source = nextId s;
          startTime = max (nextStartTimeRef s) currentTime
      in s\<lparr>nextId := source + 1,
            connectedNodes := insert source (connectedNodes s),
            started := started s @ [(startTime, duration)],
            playing := insert source (playing s),
            nextStartTimeRef := addition startTime duration,
            audioSourcesRef := insert source (audioSourcesRef s)\<rparr>)"

text \<open>The \<^verbatim>\<open>onended\<close> handler of a source.\<close>

definition onended :: "nat \<Rightarrow> hook \<Rightarrow> hook" where
  "onended source s =
     s\<lparr>playing := playing s - {source}, audioSourcesRef := audioSourcesRef s - {source}\<rparr>"

text \<open>
  Lines 234 to 246: the running speaking check, if any, is cleared and a new one is set.  A
  timer handle is a positive number, so the truthiness test of the cell is the test for null.
\<close>

definition restartSpeakingCheck :: "hook \<Rightarrow> hook" where
  "restartSpeakingCheck s =
     (let s1 = (case speakingCheckIntervalRef s of
                  Some t \<Rightarrow> s\<lparr>activeIntervals := activeIntervals s - {t}\<rparr>
                | None \<Rightarrow> s);
          t' = nextId s1
      in s1\<lparr>nextId := t' + 1,
             activeIntervals := insert t' (activeIntervals s1),
             speakingCheckIntervalRef := Some t'\<rparr>)"

text \<open>
  The callback of the speaking check, run with the reading of the output clock.  The parameter
  \<open>threshold\<close> is what the runtime computes for \<^verbatim>\<open>nextStartTimeRef.current - 0.1\<close>.
\<close>

definition speakingCheck :: "(real \<Rightarrow> real) \<Rightarrow> real \<Rightarrow> hook \<Rightarrow> hook" where
  "speakingCheck threshold currentTime s =
     (if outputAudioContextRef s \<noteq> None \<and> currentTime \<ge> threshold (nextStartTimeRef s)
      then clearSpeakingCheck (setIsSpeaking False s)
      else s)"

subsection \<open>handleMessage\<close>

text \<open>
  A message of the live session, as far as the hook reads it.
  \<^item> \<open>toolCall\<close>: absent; or present without its \<^verbatim>\<open>functionCalls\<close>; or present with them.
  \<^item> \<open>modelTurnParts\<close>: the model turn of the server content is absent; or present without
    its \<^verbatim>\<open>parts\<close>; or present with them, each part given by the base64 data of its inline
    data, if it has any.
  The transcription is only logged.

  The world outside answers, for one message: the environment of every function call, the
  outcome of decoding the audio data (the duration of the decoded buffer, or the value thrown)
  and the reading of the clock of the output context.  The handler is taken to run without
  another callback of the hook in between.
\<close>

record LiveServerMessage =
  toolCall :: "FunctionCall list option option"
  modelTurnParts :: "string option list option option"

record message_env =
  remote :: "FunctionCall \<Rightarrow> invocation_env"
  decodeAudioData :: "thrown + real"
  currentTime :: real

text \<open>
  Lines 178 to 217.  Iterating over absent \<^verbatim>\<open>functionCalls\<close> raises a \<^verbatim>\<open>TypeError\<close>, after the
  thinking flag was set and outside every \<^verbatim>\<open>try\<close>.
\<close>

definition handleToolCall ::
  "(Role \<Rightarrow> string) \<Rightarrow> (FunctionCall \<Rightarrow> invocation_env) \<Rightarrow>
   FunctionCall list option option \<Rightarrow> hook \<Rightarrow> thrown option \<times> hook" where
  "handleToolCall roleText r tc s =
     (case tc of
        None \<Rightarrow> (None, s)
      | Some None \<Rightarrow> (Some typeError, setIsThinking True (onToolCall s))
      | Some (Some functionCalls) \<Rightarrow>
          (None, functionCallsLoop roleText r functionCalls (setIsThinking True (onToolCall s))))"

text \<open>
  Line 219, \<^verbatim>\<open>message.serverContent?.modelTurn?.parts[0]?.inlineData?.data\<close>: indexing absent
  \<^verbatim>\<open>parts\<close> raises a \<^verbatim>\<open>TypeError\<close>; every other absence gives \<^verbatim>\<open>undefined\<close>.
\<close>

definition base64AudioOf :: "string option list option option \<Rightarrow> thrown + string option" where
  "base64AudioOf turn =
     (case turn of
        None \<Rightarrow> Inr None
      | Some None \<Rightarrow> Inl typeError
      | Some (Some []) \<Rightarrow> Inr None
      | Some (Some (part # _)) \<Rightarrow> Inr part)"

definition handleMessage ::
  "(Role \<Rightarrow> string) \<Rightarrow> (real \<Rightarrow> real \<Rightarrow> real) \<Rightarrow> message_env \<Rightarrow> LiveServerMessage \<Rightarrow> hook \<Rightarrow>
   thrown option \<times> hook" where
  "handleMessage roleText addition env msg s =
     (case handleToolCall roleText (remote env) (toolCall msg) s of
        (Some e, s1) \<Rightarrow> (Some e, s1)
      | (None, s1) \<Rightarrow>
          (case base64AudioOf (modelTurnParts msg) of
             Inl e \<Rightarrow> (Some e, s1)
           | Inr None \<Rightarrow> (None, s1)
           | Inr (Some base64Audio) \<Rightarrow>
               if base64Audio \<noteq> [] \<and> outputAudioContextRef s1 \<noteq> None \<and>
                  outputGainNodeRef s1 \<noteq> None
               then (let s2 = setIsSpeaking True s1
                     in case decodeAudioData env of
                          Inl e \<Rightarrow> (Some e, s2)
                        | Inr duration \<Rightarrow>
                            (None, restartSpeakingCheck
                                     (scheduleSource addition (currentTime env) duration s2)))
               else (None, s1)))"

subsection \<open>startSession and the callbacks of the channel\<close>

text \<open>
  What the world outside answers during one call of \<^verbatim>\<open>startSession\<close>: whether the constructor
  of the client throws, the state in which each new audio context is created (or the value its
  constructor throws), the outcome of each awaited \<^verbatim>\<open>resume()\<close>, and the outcome of the awaited
  \<^verbatim>\<open>getUserMedia\<close> (the number of tracks of the granted stream, or the value thrown).
\<close>

record start_env =
  newGoogleGenAI :: "thrown option"
  newInputAudioContext :: "thrown + AudioContextState"
  newOutputAudioContext :: "thrown + AudioContextState"
  resumeInput :: "thrown option"
  resumeOutput :: "thrown option"
  getUserMedia :: "thrown + nat"

definition newAudioContext :: "AudioContextState \<Rightarrow> hook \<Rightarrow> nat \<times> hook" where
  "newAudioContext st s =
     (nextId s, s\<lparr>nextId := nextId s + 1, contexts := (contexts s)(nextId s := st)\<rparr>)"

definition createGain :: "hook \<Rightarrow> hook" where
  "createGain s =
     s\<lparr>nextId := nextId s + 1,
       outputGainNodeRef := Some (nextId s),
       connectedNodes := insert (nextId s) (connectedNodes s)\<rparr>"

definition resumeContext :: "nat \<Rightarrow> thrown option \<Rightarrow> hook \<Rightarrow> thrown option \<times> hook" where
  "resumeContext c outcome s =
     (if contexts s c = Suspended then
        (case outcome of
           Some e \<Rightarrow> (Some e, s)
         | None \<Rightarrow> (None, s\<lparr>contexts := (contexts s)(c := Running)\<rparr>))
      else (None, s))"

definition acquireStream :: "nat \<Rightarrow> hook \<Rightarrow> hook" where
  "acquireStream n s =
     (let tracks = [nextId s ..< nextId s + n]
      in s\<lparr>nextId := nextId s + n,
            streamRef := Some tracks,
            liveTracks := liveTracks s \<union> set tracks\<rparr>)"

text \<open>\<^verbatim>\<open>live.connect\<close> is asynchronous: it returns a promise, which is pending.\<close>

definition liveConnect :: "hook \<Rightarrow> hook" where
  "liveConnect s =
     s\<lparr>nextId := nextId s + 1,
       promises := (promises s)(nextId s := Pending []),
       sessionPromiseRef := Some (nextId s)\<rparr>"

text \<open>The \<^verbatim>\<open>try\<close> block of \<^verbatim>\<open>startSession\<close>.\<close>

definition connectBlock :: "start_env \<Rightarrow> hook \<Rightarrow> thrown option \<times> hook" where
  "connectBlock env s =
     (case newGoogleGenAI env of
        Some e \<Rightarrow> (Some e, s)
      | None \<Rightarrow>
     (let s1 = s\<lparr>aiRef := True\<rparr> in
      case newInputAudioContext env of
        Inl e \<Rightarrow> (Some e, s1)
      | Inr inputState \<Rightarrow>
     (let (input, s2) = newAudioContext inputState s1;
          s3 = s2\<lparr>inputAudioContextRef := Some input\<rparr> in
      case newOutputAudioContext env of
        Inl e \<Rightarrow> (Some e, s3)
      | Inr outputState \<Rightarrow>
     (let (output, s4) = newAudioContext outputState s3;
          s5 = createGain (s4\<lparr>outputAudioContextRef := Some output\<rparr>) in
      case resumeContext input (resumeInput env) s5 of
        (Some e, s6) \<Rightarrow> (Some e, s6)
      | (None, s6) \<Rightarrow>
     (case resumeContext output (resumeOutput env) s6 of
        (Some e, s7) \<Rightarrow> (Some e, s7)
      | (None, s7) \<Rightarrow>
     (case getUserMedia env of
        Inl e \<Rightarrow> (Some e, s7)
      | Inr n \<Rightarrow> (None, liveConnect (acquireStream n s7))))))))"

text \<open>
  \<^verbatim>\<open>startSession\<close>.  The callback is created by a render and closes over the session state of
  that render (it is created anew when a render has another session state, line 337): the
  guard of line 251 tests the captured value, the parameter \<open>rendered\<close>, and not the state a
  setter has written since.  The parameter \<open>toLowerCase\<close> is the lower-casing of the runtime,
  used by the error classifier.  The parameter \<^verbatim>\<open>shouldPlayGreeting\<close> is not used by the body.
\<close>

definition startSession ::
  "(string \<Rightarrow> string) \<Rightarrow> SessionState \<Rightarrow> start_env \<Rightarrow> hook \<Rightarrow> hook" where
  "startSession toLowerCase rendered env s =
     (if rendered = CONNECTING \<or> rendered = CONNECTED then s
      else
        (case connectBlock env
                ((setSessionState CONNECTING (setError None s))\<lparr>isClosedRef := False\<rparr>) of
           (None, s') \<Rightarrow> s'
         | (Some e, s') \<Rightarrow>
             cleanup
               (setSessionState ERROR
                  (setError (Some (mapErrorToAppError toLowerCase e)) s'))))"

text \<open>The \<^verbatim>\<open>onopen\<close> callback: two guarded returns, then the capture path is wired.\<close>

definition onopen :: "hook \<Rightarrow> hook" where
  "onopen s =
     (if isClosedRef s then s
      else
        (case (inputAudioContextRef s, streamRef s) of
           (Some input, Some stream) \<Rightarrow>
             if contexts s input = Closed then s
             else
               (let s1 = setSessionState CONNECTED s;
                    source = nextId s1;
                    processor = source + 1
                in s1\<lparr>nextId := processor + 1,
                       scriptProcessorRef := Some processor,
                       connectedNodes := insert processor (insert source (connectedNodes s1))\<rparr>)
         | _ \<Rightarrow> s))"

text \<open>
  The \<^verbatim>\<open>onaudioprocess\<close> handler of the capture node, for one captured frame already encoded
  as \<open>pcmBlob\<close>.
\<close>

definition onaudioprocess :: "string \<Rightarrow> hook \<Rightarrow> hook" where
  "onaudioprocess pcmBlob s = thenSend (RealtimeInput pcmBlob) s"

definition disconnectedError :: AppError where
  "disconnectedError =
     \<lparr>title = title_disconnected, message = message_disconnected,
      steps = [step_disconnected_1, step_disconnected_2]\<rparr>"

definition onerror :: "hook \<Rightarrow> hook" where
  "onerror s = setSessionState ERROR (setError (Some disconnectedError) s)"

definition onclose :: "hook \<Rightarrow> hook" where
  "onclose s =
     (let s1 = s\<lparr>isClosedRef := True\<rparr>;
          s2 = (if sessionStateRef s1 \<noteq> ERROR then setSessionState IDLE s1 else s1)
      in cleanup s2)"

subsection \<open>The initial state and sequences of messages\<close>

text \<open>
  The state of a freshly mounted hook: the initial values of the state variables and of the
  reference cells, and a browser in which the hook has created no object yet.
\<close>

definition initialHook :: hook where
  "initialHook =
     \<lparr>sessionState = IDLE, history = [], error = None, isThinking = False, isSpeaking = False,
      updates = [],
      sessionPromiseRef = None, streamRef = None,
      inputAudioContextRef = None, outputAudioContextRef = None,
      outputGainNodeRef = None, scriptProcessorRef = None,
      nextStartTimeRef = 0, audioSourcesRef = {}, aiRef = False,
      speakingCheckIntervalRef = None, isClosedRef = False, sessionStateRef = IDLE,
      contexts = (\<lambda>_. Closed), liveTracks = {}, connectedNodes = {}, started = [],
      playing = {}, activeIntervals = {}, promises = (\<lambda>_. Rejected), sent = [],
      nextId = 1\<rparr>"

text \<open>The messages of a list handled one after the other, each with its environment.\<close>

fun handleMessages ::
  "(Role \<Rightarrow> string) \<Rightarrow> (real \<Rightarrow> real \<Rightarrow> real) \<Rightarrow> (message_env \<times> LiveServerMessage) list \<Rightarrow>
   hook \<Rightarrow> hook" where
  "handleMessages roleText addition [] s = s"
| "handleMessages roleText addition ((env, msg) # rest) s =
     handleMessages roleText addition rest (snd (handleMessage roleText addition env msg s))"

text \<open>
  An audio chunk is given by its base64 data, the reading of the output clock when it is
  scheduled, and the duration of its decoded buffer.  It arrives as a message with no tool call,
  as the only part of a model turn.
\<close>

type_synonym chunk = "string \<times> real \<times> real"

definition chunk_clock :: "chunk \<Rightarrow> real" where
  "chunk_clock c = fst (snd c)"

definition chunk_duration :: "chunk \<Rightarrow> real" where
  "chunk_duration c = snd (snd c)"

definition audioChunk ::
  "(FunctionCall \<Rightarrow> invocation_env) \<Rightarrow> chunk \<Rightarrow> message_env \<times> LiveServerMessage" where
  "audioChunk r c =
     (\<lparr>remote = r, decodeAudioData = Inr (chunk_duration c), currentTime = chunk_clock c\<rparr>,
      \<lparr>toolCall = None, modelTurnParts = Some (Some [Some (fst c)])\<rparr>)"

subsection \<open>Example environments and states\<close>

text \<open>
  The examples below are used to evaluate the hook on concrete inputs.  In \<open>grantedEnv\<close> every
  step of \<^verbatim>\<open>startSession\<close> succeeds: the input context is created running, the output context
  suspended and then resumed, and the microphone stream has one track.  In \<open>deniedEnv\<close> the user
  denies the microphone.
\<close>

definition grantedEnv :: start_env where
  "grantedEnv =
     \<lparr>newGoogleGenAI = None, newInputAudioContext = Inr Running,
      newOutputAudioContext = Inr Suspended, resumeInput = None, resumeOutput = None,
      getUserMedia = Inr 1\<rparr>"

definition deniedEnv :: start_env where
  "deniedEnv =
     grantedEnv\<lparr>getUserMedia := Inl (ErrorObject ''NotAllowedError'' ''Permission denied'')\<rparr>"

text \<open>
  \<open>openedSession\<close>: a session was started through the callback of the first render (session
  state \<open>IDLE\<close>), the channel has opened and the hook has rendered, while the session promise
  is still pending (address 5).  \<open>liveSession\<close>: the promise has been
  fulfilled.  \<open>speakingSession\<close>: one audio chunk of half a second has been scheduled.
\<close>

definition openedSession :: hook where
  "openedSession =
     syncSessionStateRef (onopen (startSession asciiLowerCase IDLE grantedEnv initialHook))"

definition liveSession :: hook where
  "liveSession = fulfilSession 5 openedSession"

definition roleName :: "Role \<Rightarrow> string" where
  "roleName r = (case r of USER \<Rightarrow> ''user'' | MODEL \<Rightarrow> ''model'')"

text \<open>An environment in which both models answer, the image model with one image.\<close>

definition answering :: "FunctionCall \<Rightarrow> invocation_env" where
  "answering fc =
     \<lparr>requestClock = 1000, resultClock = 2000,
      generateContent = Inr (Some ''Hello''),
      generateImages = Inr (Some [Some (Some ''QUJD'')])\<rparr>"

text \<open>An environment in which the awaited call of either model rejects.\<close>

definition failing :: "FunctionCall \<Rightarrow> invocation_env" where
  "failing fc =
     \<lparr>requestClock = 1000, resultClock = 2000,
      generateContent = Inl (ErrorObject ''Error'' ''503 Service Unavailable''),
      generateImages = Inl (ErrorObject ''Error'' ''503 Service Unavailable'')\<rparr>"

definition speakingSession :: hook where
  "speakingSession =
     handleMessages roleName doubleAdd [audioChunk answering (''UklGRg=='', 0, 1 / 2)]
       liveSession"

text \<open>
  A message that carries a tool call and no audio, and an environment for it.  Three function
  calls: a text request, an image request, and a call of a tool the hook does not know.
\<close>

definition toolCallMessage :: "FunctionCall list \<Rightarrow> LiveServerMessage" where
  "toolCallMessage functionCalls =
     \<lparr>toolCall = Some (Some functionCalls), modelTurnParts = None\<rparr>"

definition noAudio :: "(FunctionCall \<Rightarrow> invocation_env) \<Rightarrow> message_env" where
  "noAudio r = \<lparr>remote = r, decodeAudioData = Inr 0, currentTime = 0\<rparr>"

definition textCall :: FunctionCall where
  "textCall = \<lparr>fc_id = ''call-1'', fc_name = ''generateContent'', fc_args = Some ''Explain tides''\<rparr>"

definition imageCall :: FunctionCall where
  "imageCall = \<lparr>fc_id = ''call-2'', fc_name = ''generateImage'', fc_args = Some ''A red kite''\<rparr>"

definition unknownCall :: FunctionCall where
  "unknownCall = \<lparr>fc_id = ''call-3'', fc_name = ''playMusic'', fc_args = Some ''Jazz''\<rparr>"






section \<open>Properties of the double addition\<close>

text \<open>A positive number between two successive powers of two is rounded at that exponent.\<close>

lemma roundToDouble_binade:
  assumes "0 < x" and "2 powi k \<le> x" and "x < 2 powi (k + 1)"
  shows "roundToDouble x = of_int (roundHalfEven (x / 2 powi (k - 52))) * 2 powi (k - 52)"
proof -
  have lower: "2 powr real_of_int k \<le> x"
    using assms(2) by (simp add: powr_real_of_int')
  have upper: "x < 2 powr (real_of_int k + 1)"
    using assms(3) powr_real_of_int' [of 2 "k + 1"] by simp
  have "\<lfloor>log 2 x\<rfloor> = k"
    using floor_log_eq_powr_iff [of x 2 k] assms(1) lower upper by simp
  then show ?thesis
    using assms(1) by (simp add: roundToDouble_def Let_def)
qed

text \<open>
  The double sum of a non-negative double and a non-negative number is not below the double:
  rounding never passes a double that lies on the other side.  Rounding a rounded number
  changes nothing.
\<close>

lemma roundHalfEven_ge_floor: "\<lfloor>q\<rfloor> \<le> roundHalfEven q"
  by (simp add: roundHalfEven_def Let_def)

lemma binade_bounds:
  assumes "0 < x"
  shows "2 powi \<lfloor>log 2 x\<rfloor> \<le> x" and "x < 2 powi (\<lfloor>log 2 x\<rfloor> + 1)"
proof -
  have "2 powr real_of_int \<lfloor>log 2 x\<rfloor> \<le> x \<and> x < 2 powr (real_of_int \<lfloor>log 2 x\<rfloor> + 1)"
    using floor_log_eq_powr_iff [of x 2 "\<lfloor>log 2 x\<rfloor>"] assms by simp
  then show "2 powi \<lfloor>log 2 x\<rfloor> \<le> x" and "x < 2 powi (\<lfloor>log 2 x\<rfloor> + 1)"
    using powr_real_of_int' [of 2 "\<lfloor>log 2 x\<rfloor>"] powr_real_of_int' [of 2 "\<lfloor>log 2 x\<rfloor> + 1"]
    by simp_all
qed

lemma roundToDouble_lower:
  assumes "0 < y" and "of_int n * 2 powi (\<lfloor>log 2 y\<rfloor> - 52) \<le> y"
  shows "of_int n * 2 powi (\<lfloor>log 2 y\<rfloor> - 52) \<le> roundToDouble y"
proof -
  let ?e = "\<lfloor>log 2 y\<rfloor> - 52"
  have pos: "(0 :: real) < 2 powi ?e"
    by simp
  have "of_int n \<le> y / 2 powi ?e"
    using assms(2) pos by (simp add: pos_le_divide_eq)
  then have "n \<le> \<lfloor>y / 2 powi ?e\<rfloor>"
    by (simp add: le_floor_iff)
  then have "n \<le> roundHalfEven (y / 2 powi ?e)"
    using roundHalfEven_ge_floor [of "y / 2 powi ?e"] by linarith
  then have "real_of_int n * 2 powi ?e \<le> real_of_int (roundHalfEven (y / 2 powi ?e)) * 2 powi ?e"
    using pos by (intro mult_right_mono) simp_all
  then show ?thesis
    using assms(1) by (simp add: roundToDouble_def Let_def)
qed

lemma doubleAdd_not_below:
  assumes "0 \<le> x" and "roundToDouble x = x" and "0 \<le> d"
  shows "x \<le> doubleAdd x d"
proof (cases "x = 0")
  case True
  show ?thesis
  proof (cases "d = 0")
    case True
    with \<open>x = 0\<close> show ?thesis by (simp add: doubleAdd_def roundToDouble_def)
  next
    case False
    then have "0 < d" using assms(3) by simp
    then have "of_int 0 * 2 powi (\<lfloor>log 2 d\<rfloor> - 52) \<le> roundToDouble d"
      by (intro roundToDouble_lower) simp_all
    then show ?thesis
      using \<open>x = 0\<close> by (simp add: doubleAdd_def)
  qed
next
  case False
  then have x: "0 < x" using assms(1) by simp
  let ?y = "x + d"
  have y: "0 < ?y" "x \<le> ?y" using x assms(3) by simp_all
  let ?kx = "\<lfloor>log 2 x\<rfloor>" and ?ky = "\<lfloor>log 2 ?y\<rfloor>"
  have k: "?kx \<le> ?ky"
    using x y by (intro floor_mono) simp
  obtain n where n: "x = of_int n * 2 powi (?kx - 52)"
    using assms(2) x by (simp add: roundToDouble_def Let_def) metis
  show ?thesis
  proof (cases "?kx = ?ky")
    case True
    then have "of_int n * 2 powi (?ky - 52) \<le> ?y"
      using n y(2) by simp
    then have "of_int n * 2 powi (?ky - 52) \<le> roundToDouble ?y"
      by (rule roundToDouble_lower [OF y(1)])
    then show ?thesis
      using n True by (simp add: doubleAdd_def)
  next
    case False
    then have "?kx + 1 \<le> ?ky" using k by simp
    then have "(2 :: real) powi (?kx + 1) \<le> 2 powi ?ky"
      by (intro power_int_increasing) simp_all
    then have below: "x < 2 powi ?ky"
      using binade_bounds(2) [OF x] by linarith
    have "(2 :: real) powi ?ky = of_int (2 ^ 52) * 2 powi (?ky - 52)"
      by (simp add: power_int_diff)
    moreover have "2 powi ?ky \<le> ?y"
      using binade_bounds(1) [OF y(1)] .
    ultimately have "of_int (2 ^ 52) * 2 powi (?ky - 52) \<le> roundToDouble ?y"
      using roundToDouble_lower [OF y(1), of "2 ^ 52"] by simp
    then show ?thesis
      using below \<open>(2 :: real) powi ?ky = of_int (2 ^ 52) * 2 powi (?ky - 52)\<close>
      by (simp add: doubleAdd_def)
  qed
qed

lemma roundHalfEven_le_floor: "roundHalfEven q \<le> \<lfloor>q\<rfloor> + 1"
  by (simp add: roundHalfEven_def Let_def)

lemma roundHalfEven_of_int: "roundHalfEven (of_int n) = n"
  by (simp add: roundHalfEven_def Let_def)

lemma roundToDouble_nonneg: "0 \<le> y \<Longrightarrow> 0 \<le> roundToDouble y"
proof (cases "y = 0")
  case True
  then show ?thesis by (simp add: roundToDouble_def)
next
  case False
  assume "0 \<le> y"
  with False have y: "0 < y" by simp
  have "of_int 0 * 2 powi (\<lfloor>log 2 y\<rfloor> - 52) \<le> roundToDouble y"
    using y by (intro roundToDouble_lower) simp_all
  then show ?thesis by simp
qed

lemma powi_split: "(2 :: real) powi a = 2 ^ 52 * 2 powi (a - 52)"
  by (simp add: power_int_diff)

lemma roundToDouble_idem:
  assumes "0 \<le> y"
  shows "roundToDouble (roundToDouble y) = roundToDouble y"
proof (cases "y = 0")
  case True
  then show ?thesis by (simp add: roundToDouble_def)
next
  case False
  with assms have y: "0 < y" by simp
  let ?k = "\<lfloor>log 2 y\<rfloor>"
  let ?e = "?k - 52"
  let ?q = "y / 2 powi ?e"
  let ?n = "roundHalfEven ?q"
  have r: "roundToDouble y = of_int ?n * 2 powi ?e"
    using y by (simp add: roundToDouble_def Let_def)
  have split: "(2 :: real) powi ?k = 2 ^ 52 * 2 powi ?e"
    "(2 :: real) powi (?k + 1) = 2 ^ 53 * 2 powi ?e"
    by (simp_all add: power_int_diff power_int_add)
  have pos: "(0 :: real) < 2 powi ?e"
    by simp
  have "2 ^ 52 \<le> ?q"
    using binade_bounds(1) [OF y] split(1) pos by (simp add: pos_le_divide_eq)
  then have lo: "2 ^ 52 \<le> \<lfloor>?q\<rfloor>"
    by (simp add: le_floor_iff)
  have "?q < 2 ^ 53"
    using binade_bounds(2) [OF y] split(2) pos by (simp add: pos_divide_less_eq)
  then have hi: "\<lfloor>?q\<rfloor> < 2 ^ 53"
    by (simp add: floor_less_iff)
  have n: "2 ^ 52 \<le> ?n" "?n \<le> 2 ^ 53"
    using lo hi roundHalfEven_ge_floor [of ?q] roundHalfEven_le_floor [of ?q] by linarith+
  show ?thesis
  proof (cases "?n = 2 ^ 53")
    case True
    then have v: "roundToDouble y = 2 powi (?k + 1)"
      using r split(2) by simp
    have "roundToDouble (2 powi (?k + 1))
            = of_int (roundHalfEven (2 powi (?k + 1) / 2 powi (?k + 1 - 52))) * 2 powi (?k + 1 - 52)"
      by (intro roundToDouble_binade) (simp_all add: power_int_add)
    moreover have "(2 :: real) powi (?k + 1) / 2 powi (?k + 1 - 52) = of_int (2 ^ 52)"
      by (subst powi_split [of "?k + 1"]) simp
    ultimately have "roundToDouble (2 powi (?k + 1)) = 2 ^ 52 * 2 powi (?k + 1 - 52)"
      by (simp only: roundHalfEven_of_int) simp
    also have "\<dots> = 2 powi (?k + 1)"
      by (rule powi_split [of "?k + 1", symmetric])
    finally show ?thesis
      using v by simp
  next
    case False
    then have n': "?n < 2 ^ 53" using n(2) by simp
    let ?r = "real_of_int ?n * 2 powi ?e"
    have rpos: "0 < ?r"
      using n(1) pos by (intro mult_pos_pos) simp_all
    have "2 ^ 52 * 2 powi ?e \<le> ?r"
      using n(1) pos by (intro mult_right_mono) (simp_all add: of_int_le_iff [of "2 ^ 52", simplified] )
    then have a: "2 powi ?k \<le> ?r"
      using split(1) by simp
    have "?r < 2 ^ 53 * 2 powi ?e"
      using n' pos by (intro mult_strict_right_mono) (simp_all add: of_int_less_iff [of _ "2 ^ 53", simplified])
    then have b: "?r < 2 powi (?k + 1)"
      using split(2) by simp
    have "roundToDouble ?r = of_int (roundHalfEven (?r / 2 powi ?e)) * 2 powi ?e"
      by (rule roundToDouble_binade [OF rpos a b])
    moreover have "?r / 2 powi ?e = of_int ?n"
      by simp
    ultimately have "roundToDouble ?r = ?r"
      by (simp only: roundHalfEven_of_int)
    then show ?thesis
      using r by simp
  qed
qed

text \<open>
  The double sum of the doubles nearest to 0.1 and to 0.7 is the double printed
  0.7999999999999999: the exact sum lies a quarter of a unit in the last place above it.
\<close>

lemma doubleAdd_half: "doubleAdd 0 (1 / 2) = 1 / 2"
  unfolding doubleAdd_def
  by (simp add: roundToDouble_binade [where k = "-1"] roundHalfEven_def power_int_minus)





section \<open>The example states, evaluated\<close>

lemmas session_steps =
  newAudioContext_def createGain_def resumeContext_def acquireStream_def liveConnect_def
  setSessionState_def setError_def

lemma openedSession_value:
  "openedSession =
     \<lparr>sessionState = CONNECTED, history = [], error = None, isThinking = False,
      isSpeaking = False,
      updates = [SetError None, SetSessionState CONNECTING, SetSessionState CONNECTED],
      sessionPromiseRef = Some 5, streamRef = Some [4],
      inputAudioContextRef = Some 1, outputAudioContextRef = Some 2,
      outputGainNodeRef = Some 3, scriptProcessorRef = Some 7,
      nextStartTimeRef = 0, audioSourcesRef = {}, aiRef = True,
      speakingCheckIntervalRef = None, isClosedRef = False, sessionStateRef = CONNECTED,
      contexts = (\<lambda>_. Closed)(1 := Running, 2 := Running),
      liveTracks = {4}, connectedNodes = {7, 6, 3}, started = [],
      playing = {}, activeIntervals = {}, promises = (\<lambda>_. Rejected)(5 := Pending []),
      sent = [], nextId = 8\<rparr>"
  by (simp add: openedSession_def syncSessionStateRef_def onopen_def startSession_def
      connectBlock_def grantedEnv_def initialHook_def session_steps Let_def eval_nat_numeral)

lemma liveSession_value:
  "liveSession = openedSession\<lparr>promises := (\<lambda>_. Rejected)(5 := Fulfilled)\<rparr>"
  by (simp add: liveSession_def fulfilSession_def openedSession_value)

lemma speakingSession_value:
  "speakingSession =
     liveSession
       \<lparr>isSpeaking := True,
        updates := [SetError None, SetSessionState CONNECTING, SetSessionState CONNECTED,
                    SetIsSpeaking True],
        nextStartTimeRef := 1 / 2, audioSourcesRef := {8},
        speakingCheckIntervalRef := Some 9,
        connectedNodes := {8, 7, 6, 3}, started := [(0, 1 / 2)],
        playing := {8}, activeIntervals := {9}, nextId := 10\<rparr>"
  by (simp add: speakingSession_def audioChunk_def handleMessage_def handleToolCall_def
      base64AudioOf_def chunk_clock_def chunk_duration_def scheduleSource_def
      restartSpeakingCheck_def setIsSpeaking_def doubleAdd_half
      liveSession_value openedSession_value Let_def)

section \<open>Properties of cleanup\<close>

lemmas cleanup_steps =
  disconnectScriptProcessor_def disconnectOutputGain_def closeContext_def
  closeInputContext_def closeOutputContext_def stopTracks_def stopSources_def
  clearSpeakingCheck_def setIsSpeaking_def

lemma cleanup_refs:
  "scriptProcessorRef (cleanup s) = None"
  "outputGainNodeRef (cleanup s) = None"
  "inputAudioContextRef (cleanup s) = None"
  "outputAudioContextRef (cleanup s) = None"
  "streamRef (cleanup s) = None"
  "speakingCheckIntervalRef (cleanup s) = None"
  "sessionPromiseRef (cleanup s) = None"
  "audioSourcesRef (cleanup s) = {}"
  "nextStartTimeRef (cleanup s) = 0"
  "isSpeaking (cleanup s) = False"
  by (simp_all add: cleanup_def cleanup_steps split: option.splits)

lemma cleanup_keeps:
  "sessionState (cleanup s) = sessionState s"
  "error (cleanup s) = error s"
  "history (cleanup s) = history s"
  "isThinking (cleanup s) = isThinking s"
  "isClosedRef (cleanup s) = isClosedRef s"
  "sessionStateRef (cleanup s) = sessionStateRef s"
  "aiRef (cleanup s) = aiRef s"
  "nextId (cleanup s) = nextId s"
  "promises (cleanup s) = promises s"
  "sent (cleanup s) = sent s"
  "started (cleanup s) = started s"
  by (simp_all add: cleanup_def cleanup_steps split: option.splits)

lemma cleanup_updates: "updates (cleanup s) = updates s @ [SetIsSpeaking False]"
  by (simp add: cleanup_def cleanup_steps split: option.splits)

lemma cleanup_contexts:
  "contexts (cleanup s) c =
     (if inputAudioContextRef s = Some c \<or> outputAudioContextRef s = Some c then Closed
      else contexts s c)"
  by (simp add: cleanup_def cleanup_steps split: option.splits)

lemma cleanup_liveTracks:
  "liveTracks (cleanup s) =
     (case streamRef s of Some tracks \<Rightarrow> liveTracks s - set tracks | None \<Rightarrow> liveTracks s)"
  by (simp add: cleanup_def cleanup_steps split: option.splits)

lemma cleanup_playing: "playing (cleanup s) = playing s - audioSourcesRef s"
  by (simp add: cleanup_def cleanup_steps split: option.splits)

lemma cleanup_activeIntervals:
  "activeIntervals (cleanup s) =
     (case speakingCheckIntervalRef s of
        Some t \<Rightarrow> activeIntervals s - {t}
      | None \<Rightarrow> activeIntervals s)"
  by (simp add: cleanup_def cleanup_steps split: option.splits)

lemma cleanup_connectedNodes:
  "connectedNodes (cleanup s) =
     connectedNodes s - (set_option (scriptProcessorRef s) \<union> set_option (outputGainNodeRef s))"
  by (auto simp add: cleanup_def cleanup_steps split: option.splits)

lemma cleanup_twice:
  "cleanup (cleanup s) = (cleanup s)\<lparr>updates := updates (cleanup s) @ [SetIsSpeaking False]\<rparr>"
proof -
  have "cleanup t = t\<lparr>updates := updates t @ [SetIsSpeaking False]\<rparr>"
    if "scriptProcessorRef t = None" "outputGainNodeRef t = None"
       "inputAudioContextRef t = None" "outputAudioContextRef t = None"
       "streamRef t = None" "speakingCheckIntervalRef t = None" "sessionPromiseRef t = None"
       "audioSourcesRef t = {}" "nextStartTimeRef t = 0" "isSpeaking t = False" for t
    using that by (simp add: cleanup_def cleanup_steps)
  then show ?thesis
    by (simp add: cleanup_refs)
qed

text \<open>
  C7: cleanup is total and can be called twice: the second call changes nothing, it only
  repeats the call \<^verbatim>\<open>setIsSpeaking(false)\<close>.  After cleanup the set of live sources is empty and
  the sources it held are stopped, the two audio contexts the hook held are closed, every track
  of the microphone stream it held is stopped, the speaking-check timer it held is cancelled,
  and the playback cursor is 0.
\<close>

theorem cleanup_idempotent_and_releases:
  "cleanup (cleanup s) = (cleanup s)\<lparr>updates := updates (cleanup s) @ [SetIsSpeaking False]\<rparr> \<and>
   audioSourcesRef (cleanup s) = {} \<and>
   audioSourcesRef s \<inter> playing (cleanup s) = {} \<and>
   (\<forall>c. inputAudioContextRef s = Some c \<or> outputAudioContextRef s = Some c \<longrightarrow>
        contexts (cleanup s) c = Closed) \<and>
   inputAudioContextRef (cleanup s) = None \<and>
   outputAudioContextRef (cleanup s) = None \<and>
   (\<forall>tracks. streamRef s = Some tracks \<longrightarrow> set tracks \<inter> liveTracks (cleanup s) = {}) \<and>
   streamRef (cleanup s) = None \<and>
   (\<forall>t. speakingCheckIntervalRef s = Some t \<longrightarrow> t \<notin> activeIntervals (cleanup s)) \<and>
   speakingCheckIntervalRef (cleanup s) = None \<and>
   nextStartTimeRef (cleanup s) = 0"
proof -
  have sources: "audioSourcesRef s \<inter> playing (cleanup s) = {}"
    by (auto simp add: cleanup_playing)
  have ctx: "\<forall>c. inputAudioContextRef s = Some c \<or> outputAudioContextRef s = Some c \<longrightarrow>
                 contexts (cleanup s) c = Closed"
    by (simp add: cleanup_contexts)
  have tracks: "\<forall>tracks. streamRef s = Some tracks \<longrightarrow>
                   set tracks \<inter> liveTracks (cleanup s) = {}"
    by (auto simp add: cleanup_liveTracks)
  have timer: "\<forall>t. speakingCheckIntervalRef s = Some t \<longrightarrow> t \<notin> activeIntervals (cleanup s)"
    by (simp add: cleanup_activeIntervals)
  show ?thesis
    using cleanup_twice [of s] sources ctx tracks timer
    by (simp only: cleanup_refs simp_thms)
qed

text \<open>
  In the example the hook holds two running contexts (1 and 2), a stream with the live track 4,
  the playing source 8 and the timer 9, and the cursor is at half a second.
\<close>

theorem cleanup_idempotent_and_releases_witness:
  "cleanup (cleanup speakingSession)
     = (cleanup speakingSession)
         \<lparr>updates := updates (cleanup speakingSession) @ [SetIsSpeaking False]\<rparr> \<and>
   audioSourcesRef speakingSession = {8} \<and> 8 \<in> playing speakingSession \<and>
   audioSourcesRef (cleanup speakingSession) = {} \<and>
   8 \<notin> playing (cleanup speakingSession) \<and>
   inputAudioContextRef speakingSession = Some 1 \<and> contexts speakingSession 1 = Running \<and>
   contexts (cleanup speakingSession) 1 = Closed \<and>
   outputAudioContextRef speakingSession = Some 2 \<and> contexts speakingSession 2 = Running \<and>
   contexts (cleanup speakingSession) 2 = Closed \<and>
   streamRef speakingSession = Some [4] \<and> 4 \<in> liveTracks speakingSession \<and>
   4 \<notin> liveTracks (cleanup speakingSession) \<and>
   speakingCheckIntervalRef speakingSession = Some 9 \<and> 9 \<in> activeIntervals speakingSession \<and>
   9 \<notin> activeIntervals (cleanup speakingSession) \<and>
   nextStartTimeRef speakingSession = 1 / 2 \<and>
   nextStartTimeRef (cleanup speakingSession) = 0"
proof -
  note c = cleanup_idempotent_and_releases [of speakingSession]
  have before:
    "audioSourcesRef speakingSession = {8}" "8 \<in> playing speakingSession"
    "inputAudioContextRef speakingSession = Some 1" "contexts speakingSession 1 = Running"
    "outputAudioContextRef speakingSession = Some 2" "contexts speakingSession 2 = Running"
    "streamRef speakingSession = Some [4]" "4 \<in> liveTracks speakingSession"
    "speakingCheckIntervalRef speakingSession = Some 9" "9 \<in> activeIntervals speakingSession"
    "nextStartTimeRef speakingSession = 1 / 2"
    by (simp_all add: speakingSession_value liveSession_value openedSession_value)
  from c have twice: "cleanup (cleanup speakingSession)
     = (cleanup speakingSession)
         \<lparr>updates := updates (cleanup speakingSession) @ [SetIsSpeaking False]\<rparr>"
    and empty: "audioSourcesRef (cleanup speakingSession) = {}"
    and stopped: "audioSourcesRef speakingSession \<inter> playing (cleanup speakingSession) = {}"
    and closed: "\<forall>c. inputAudioContextRef speakingSession = Some c \<or>
                     outputAudioContextRef speakingSession = Some c \<longrightarrow>
                     contexts (cleanup speakingSession) c = Closed"
    and tracks: "\<forall>tracks. streamRef speakingSession = Some tracks \<longrightarrow>
                     set tracks \<inter> liveTracks (cleanup speakingSession) = {}"
    and timer: "\<forall>t. speakingCheckIntervalRef speakingSession = Some t \<longrightarrow>
                     t \<notin> activeIntervals (cleanup speakingSession)"
    and cursor: "nextStartTimeRef (cleanup speakingSession) = 0"
    by blast+
  have "8 \<notin> playing (cleanup speakingSession)"
    using stopped before(1) by blast
  moreover have "contexts (cleanup speakingSession) 1 = Closed"
    using closed before(3) by blast
  moreover have "contexts (cleanup speakingSession) 2 = Closed"
    using closed before(5) by blast
  moreover have "4 \<notin> liveTracks (cleanup speakingSession)"
    using tracks before(7) by (metis disjoint_iff list.set_intros(1))
  moreover have "9 \<notin> activeIntervals (cleanup speakingSession)"
    using timer before(9) by blast
  ultimately show ?thesis
    using twice empty cursor before by (simp only: simp_thms)
qed

section \<open>Properties of the error classifier\<close>

lemma connectionError_neq_deviceError: "connectionError \<noteq> deviceError"
  by (simp add: connectionError_def deviceError_def title_connection_def title_device_def)

text \<open>
  C5, the precedence as stated: a fault with a missing-device signature and no
  permission signature is to be classified as the missing-microphone error.  The fault
  \<^verbatim>\<open>new Error('No audio device: network unreachable')\<close>, whose message is ASCII, has the device
  signature and not the permission signature, and is classified as the server-connection
  error: the test for the network signatures comes before the test for the device signatures.
\<close>

theorem mapErrorToAppError_precedence_counterexample:
  "deviceSignature ''Error'' (asciiLowerCase ''No audio device: network unreachable'') \<and>
   \<not> permissionSignature ''Error'' (asciiLowerCase ''No audio device: network unreachable'') \<and>
   mapErrorToAppError asciiLowerCase (ErrorObject ''Error'' ''No audio device: network unreachable'')
     = connectionError \<and>
   mapErrorToAppError asciiLowerCase (ErrorObject ''Error'' ''No audio device: network unreachable'')
     \<noteq> deviceError"
proof -
  have lower: "asciiLowerCase ''No audio device: network unreachable''
                 = ''no audio device: network unreachable''"
    by (simp add: asciiLowerCase_def asciiLowerChar_def)
  have dev: "deviceSignature ''Error'' ''no audio device: network unreachable''"
    by (simp add: deviceSignature_def)
  have perm: "\<not> permissionSignature ''Error'' ''no audio device: network unreachable''"
    by (simp add: permissionSignature_def)
  have conn: "connectionSignature ''no audio device: network unreachable''"
    by (simp add: connectionSignature_def)
  have res: "mapErrorToAppError asciiLowerCase (ErrorObject ''Error'' ''No audio device: network unreachable'')
               = connectionError"
    using perm conn by (simp only: mapErrorToAppError.simps lower Let_def if_True if_False)
  show ?thesis
    by (simp only: lower dev perm res connectionError_neq_deviceError simp_thms)
qed

text \<open>
  C5, as the classifier decides, whatever the lower-casing of the runtime is: every fault falls
  into exactly one of four buckets, tested in the order permission denial, then network,
  authentication or protocol rejection, then missing input device, then unknown.  A permission
  denial gives the microphone-access error, whose list of steps is not empty.  An \<^verbatim>\<open>Error\<close> with none of the signatures gives the generic title,
  its own message and no steps; a thrown value that is not an \<^verbatim>\<open>Error\<close> gives the generic title,
  the generic message and no steps.
\<close>

theorem mapErrorToAppError_buckets:
  "(permissionSignature name (toLowerCase msg) \<longrightarrow>
      mapErrorToAppError toLowerCase (ErrorObject name msg) = permissionError \<and>
      steps (mapErrorToAppError toLowerCase (ErrorObject name msg)) \<noteq> []) \<and>
   (\<not> permissionSignature name (toLowerCase msg) \<and> connectionSignature (toLowerCase msg) \<longrightarrow>
      mapErrorToAppError toLowerCase (ErrorObject name msg) = connectionError) \<and>
   (\<not> permissionSignature name (toLowerCase msg) \<and> \<not> connectionSignature (toLowerCase msg) \<and>
    deviceSignature name (toLowerCase msg) \<longrightarrow>
      mapErrorToAppError toLowerCase (ErrorObject name msg) = deviceError) \<and>
   (\<not> permissionSignature name (toLowerCase msg) \<and> \<not> connectionSignature (toLowerCase msg) \<and>
    \<not> deviceSignature name (toLowerCase msg) \<longrightarrow>
      mapErrorToAppError toLowerCase (ErrorObject name msg)
        = \<lparr>title = title_unknown, message = msg, steps = []\<rparr>) \<and>
   mapErrorToAppError toLowerCase OtherValue
     = \<lparr>title = title_unknown, message = message_unknown, steps = []\<rparr>"
  by (simp add: Let_def permissionError_def)

text \<open>
  The four buckets are inhabited: a denied permission prompt, a rejected API key, a missing
  device and an unrecognised fault.
\<close>

theorem mapErrorToAppError_buckets_witness:
  "(permissionSignature ''NotAllowedError'' (asciiLowerCase ''Permission denied'') \<and>
    mapErrorToAppError asciiLowerCase (ErrorObject ''NotAllowedError'' ''Permission denied'') = permissionError \<and>
    steps (mapErrorToAppError asciiLowerCase (ErrorObject ''NotAllowedError'' ''Permission denied'')) \<noteq> []) \<and>
   (\<not> permissionSignature ''Error'' (asciiLowerCase ''API key not valid'') \<and>
    connectionSignature (asciiLowerCase ''API key not valid'') \<and>
    mapErrorToAppError asciiLowerCase (ErrorObject ''Error'' ''API key not valid'') = connectionError) \<and>
   (\<not> permissionSignature ''NotFoundError'' (asciiLowerCase ''Requested device not found'') \<and>
    \<not> connectionSignature (asciiLowerCase ''Requested device not found'') \<and>
    deviceSignature ''NotFoundError'' (asciiLowerCase ''Requested device not found'') \<and>
    mapErrorToAppError asciiLowerCase (ErrorObject ''NotFoundError'' ''Requested device not found'')
      = deviceError) \<and>
   (\<not> permissionSignature ''Error'' (asciiLowerCase ''Quota exceeded'') \<and>
    \<not> connectionSignature (asciiLowerCase ''Quota exceeded'') \<and>
    \<not> deviceSignature ''Error'' (asciiLowerCase ''Quota exceeded'') \<and>
    mapErrorToAppError asciiLowerCase (ErrorObject ''Error'' ''Quota exceeded'')
      = \<lparr>title = title_unknown, message = ''Quota exceeded'', steps = []\<rparr>)"
proof -
  have l1: "asciiLowerCase ''Permission denied'' = ''permission denied''"
    by (simp add: asciiLowerCase_def asciiLowerChar_def)
  have l2: "asciiLowerCase ''API key not valid'' = ''api key not valid''"
    by (simp add: asciiLowerCase_def asciiLowerChar_def)
  have l3: "asciiLowerCase ''Requested device not found'' = ''requested device not found''"
    by (simp add: asciiLowerCase_def asciiLowerChar_def)
  have l4: "asciiLowerCase ''Quota exceeded'' = ''quota exceeded''"
    by (simp add: asciiLowerCase_def asciiLowerChar_def)
  have h1: "permissionSignature ''NotAllowedError'' (asciiLowerCase ''Permission denied'')"
    by (simp add: l1 permissionSignature_def)
  have h2: "\<not> permissionSignature ''Error'' (asciiLowerCase ''API key not valid'') \<and>
            connectionSignature (asciiLowerCase ''API key not valid'')"
    by (simp add: l2 permissionSignature_def connectionSignature_def)
  have h3: "\<not> permissionSignature ''NotFoundError'' (asciiLowerCase ''Requested device not found'') \<and>
            \<not> connectionSignature (asciiLowerCase ''Requested device not found'') \<and>
            deviceSignature ''NotFoundError'' (asciiLowerCase ''Requested device not found'')"
    by (simp add: l3 permissionSignature_def connectionSignature_def deviceSignature_def)
  have h4: "\<not> permissionSignature ''Error'' (asciiLowerCase ''Quota exceeded'') \<and>
            \<not> connectionSignature (asciiLowerCase ''Quota exceeded'') \<and>
            \<not> deviceSignature ''Error'' (asciiLowerCase ''Quota exceeded'')"
    by (simp add: l4 permissionSignature_def connectionSignature_def deviceSignature_def)
  note c1 = mapErrorToAppError_buckets
      [where name = "''NotAllowedError''" and toLowerCase = asciiLowerCase and msg = "''Permission denied''", THEN conjunct1, THEN mp, OF h1]
  note c2 = mapErrorToAppError_buckets
      [where name = "''Error''" and toLowerCase = asciiLowerCase and msg = "''API key not valid''", THEN conjunct2, THEN conjunct1, THEN mp, OF h2]
  note c3 = mapErrorToAppError_buckets
      [where name = "''NotFoundError''" and toLowerCase = asciiLowerCase and msg = "''Requested device not found''",
       THEN conjunct2, THEN conjunct2, THEN conjunct1, THEN mp, OF h3]
  note c4 = mapErrorToAppError_buckets
      [where name = "''Error''" and toLowerCase = asciiLowerCase and msg = "''Quota exceeded''",
       THEN conjunct2, THEN conjunct2, THEN conjunct2, THEN conjunct1, THEN mp, OF h4]
  from h1 h2 h3 h4 c1 c2 c3 c4 show ?thesis
    by - (elim conjE, (intro conjI; assumption))
qed

section \<open>Properties of startSession\<close>

lemma resumeContext_updates: "updates (snd (resumeContext c outcome s)) = updates s"
  by (simp add: resumeContext_def split: option.splits)

lemma connectBlock_updates: "updates (snd (connectBlock env s)) = updates s"
proof -
  have r: "updates t' = updates t" if "resumeContext c outcome t = (x, t')" for c outcome t x t'
    using resumeContext_updates [of c outcome t] that by simp
  show ?thesis
    by (auto simp add: connectBlock_def Let_def newAudioContext_def createGain_def
        acquireStream_def liveConnect_def
        split: option.splits sum.splits prod.splits dest!: r)
qed

lemma connectBlock_state:
  "sessionState (snd (connectBlock env s)) = sessionState s"
  "error (snd (connectBlock env s)) = error s"
proof -
  have r: "sessionState t' = sessionState t \<and> error t' = error t"
    if "resumeContext c outcome t = (x, t')" for c outcome t x t'
    using that by (auto simp add: resumeContext_def split: if_splits option.splits)
  show "sessionState (snd (connectBlock env s)) = sessionState s"
    by (auto simp add: connectBlock_def Let_def newAudioContext_def createGain_def
        acquireStream_def liveConnect_def
        split: option.splits sum.splits prod.splits dest!: r)
  show "error (snd (connectBlock env s)) = error s"
    by (auto simp add: connectBlock_def Let_def newAudioContext_def createGain_def
        acquireStream_def liveConnect_def
        split: option.splits sum.splits prod.splits dest!: r)
qed

text \<open>
  What the guard does, in terms of the session state its callback has captured: a callback
  created by a render with session state \<open>CONNECTING\<close> or \<open>CONNECTED\<close> returns the state it was
  given (no object is created, no cell is written, no state setter is called, no second session
  promise exists); any other callback first calls \<^verbatim>\<open>setError(null)\<close> and
  \<^verbatim>\<open>setSessionState(CONNECTING)\<close>, and when no step of its attempt fails these are its only
  updates.
\<close>

lemma startSession_guard_on_rendered_state:
  "(rendered = CONNECTING \<or> rendered = CONNECTED \<longrightarrow>
      startSession toLowerCase rendered env s = s) \<and>
   (rendered \<noteq> CONNECTING \<and> rendered \<noteq> CONNECTED \<longrightarrow>
      (\<exists>rest. updates (startSession toLowerCase rendered env s)
                 = updates s @ [SetError None, SetSessionState CONNECTING] @ rest) \<and>
      (fst (connectBlock env
              ((setSessionState CONNECTING (setError None s))\<lparr>isClosedRef := False\<rparr>)) = None \<longrightarrow>
         updates (startSession toLowerCase rendered env s)
           = updates s @ [SetError None, SetSessionState CONNECTING] \<and>
         error (startSession toLowerCase rendered env s) = None \<and>
         sessionState (startSession toLowerCase rendered env s) = CONNECTING))"
proof -
  let ?s1 = "(setSessionState CONNECTING (setError None s))\<lparr>isClosedRef := False\<rparr>"
  have s1: "updates ?s1 = updates s @ [SetError None, SetSessionState CONNECTING]"
    "error ?s1 = None" "sessionState ?s1 = CONNECTING"
    by (simp_all add: setSessionState_def setError_def)
  obtain x s' where c: "connectBlock env ?s1 = (x, s')"
    by (cases "connectBlock env ?s1")
  have s': "updates s' = updates s @ [SetError None, SetSessionState CONNECTING]"
    "error s' = None" "sessionState s' = CONNECTING"
    using connectBlock_updates [of env ?s1] connectBlock_state [of env ?s1] c s1 by simp_all
  have noop: "rendered = CONNECTING \<or> rendered = CONNECTED \<longrightarrow>
                startSession toLowerCase rendered env s = s"
    by (auto simp add: startSession_def)
  have attempt: "startSession toLowerCase rendered env s =
      (case x of None \<Rightarrow> s'
       | Some e \<Rightarrow>
           cleanup (setSessionState ERROR
                      (setError (Some (mapErrorToAppError toLowerCase e)) s')))"
    if "rendered \<noteq> CONNECTING" "rendered \<noteq> CONNECTED"
    using that c by (simp add: startSession_def split: option.splits)
  have first: "\<exists>rest. updates (startSession toLowerCase rendered env s)
                 = updates s @ [SetError None, SetSessionState CONNECTING] @ rest"
    if "rendered \<noteq> CONNECTING" "rendered \<noteq> CONNECTED"
  proof (cases x)
    case None
    then show ?thesis
      using attempt [OF that] s' by simp
  next
    case (Some e)
    then have "updates (startSession toLowerCase rendered env s)
        = updates s @ [SetError None, SetSessionState CONNECTING] @
          [SetError (Some (mapErrorToAppError toLowerCase e)), SetSessionState ERROR,
           SetIsSpeaking False]"
      using attempt [OF that] s'
      by (simp add: cleanup_updates setSessionState_def setError_def)
    then show ?thesis
      by blast
  qed
  have ok: "updates (startSession toLowerCase rendered env s)
               = updates s @ [SetError None, SetSessionState CONNECTING] \<and>
            error (startSession toLowerCase rendered env s) = None \<and>
            sessionState (startSession toLowerCase rendered env s) = CONNECTING"
    if "rendered \<noteq> CONNECTING" "rendered \<noteq> CONNECTED" "fst (connectBlock env ?s1) = None"
    using attempt [OF that(1,2)] that(3) c s' by simp
  show ?thesis
    using noop first ok by blast
qed

lemma startSession_first_value:
  "startSession toLowerCase IDLE grantedEnv initialHook =
     \<lparr>sessionState = CONNECTING, history = [], error = None, isThinking = False,
      isSpeaking = False,
      updates = [SetError None, SetSessionState CONNECTING],
      sessionPromiseRef = Some 5, streamRef = Some [4],
      inputAudioContextRef = Some 1, outputAudioContextRef = Some 2,
      outputGainNodeRef = Some 3, scriptProcessorRef = None,
      nextStartTimeRef = 0, audioSourcesRef = {}, aiRef = True,
      speakingCheckIntervalRef = None, isClosedRef = False, sessionStateRef = IDLE,
      contexts = (\<lambda>_. Closed)(1 := Running, 2 := Running),
      liveTracks = {4}, connectedNodes = {3}, started = [],
      playing = {}, activeIntervals = {}, promises = (\<lambda>_. Rejected)(5 := Pending []),
      sent = [], nextId = 6\<rparr>"
  by (simp add: startSession_def connectBlock_def grantedEnv_def initialHook_def session_steps
      Let_def eval_nat_numeral)

text \<open>
  C4: the start callback of the first render (session state \<open>IDLE\<close>), called twice in a row
  with the microphone granted.  The first call sets the session state to \<open>CONNECTING\<close> and
  leaves a pending session promise (address 5).  The hook has not rendered in between, so the
  second call runs the same callback, whose captured session state is still \<open>IDLE\<close>: the guard
  does not fire.  The second call creates a second pair of audio contexts (6 and 7), acquires a
  second microphone track (9) and opens a second connection (session promise 10), while the
  contexts, the track and the pending promise of the first attempt stay as they were, no longer
  referenced by the hook.  A callback created by a render that shows \<open>CONNECTING\<close> does return
  the state unchanged.
\<close>

theorem startSession_twice_through_one_callback:
  "sessionState (startSession toLowerCase IDLE grantedEnv initialHook) = CONNECTING \<and>
   sessionPromiseRef (startSession toLowerCase IDLE grantedEnv initialHook) = Some 5 \<and>
   startSession toLowerCase IDLE grantedEnv
     (startSession toLowerCase IDLE grantedEnv initialHook)
     \<noteq> startSession toLowerCase IDLE grantedEnv initialHook \<and>
   sessionPromiseRef
     (startSession toLowerCase IDLE grantedEnv
        (startSession toLowerCase IDLE grantedEnv initialHook)) = Some 10 \<and>
   promises
     (startSession toLowerCase IDLE grantedEnv
        (startSession toLowerCase IDLE grantedEnv initialHook)) 5 = Pending [] \<and>
   promises
     (startSession toLowerCase IDLE grantedEnv
        (startSession toLowerCase IDLE grantedEnv initialHook)) 10 = Pending [] \<and>
   inputAudioContextRef
     (startSession toLowerCase IDLE grantedEnv
        (startSession toLowerCase IDLE grantedEnv initialHook)) = Some 6 \<and>
   outputAudioContextRef
     (startSession toLowerCase IDLE grantedEnv
        (startSession toLowerCase IDLE grantedEnv initialHook)) = Some 7 \<and>
   contexts
     (startSession toLowerCase IDLE grantedEnv
        (startSession toLowerCase IDLE grantedEnv initialHook)) 1 = Running \<and>
   contexts
     (startSession toLowerCase IDLE grantedEnv
        (startSession toLowerCase IDLE grantedEnv initialHook)) 2 = Running \<and>
   liveTracks
     (startSession toLowerCase IDLE grantedEnv
        (startSession toLowerCase IDLE grantedEnv initialHook)) = {4, 9} \<and>
   updates
     (startSession toLowerCase IDLE grantedEnv
        (startSession toLowerCase IDLE grantedEnv initialHook))
     = [SetError None, SetSessionState CONNECTING, SetError None, SetSessionState CONNECTING] \<and>
   startSession toLowerCase CONNECTING grantedEnv
     (startSession toLowerCase IDLE grantedEnv initialHook)
     = startSession toLowerCase IDLE grantedEnv initialHook"
proof -
  let ?s1 = "startSession toLowerCase IDLE grantedEnv initialHook"
  let ?s2 = "startSession toLowerCase IDLE grantedEnv ?s1"
  have first: "sessionState ?s1 = CONNECTING" "sessionPromiseRef ?s1 = Some 5"
    by (simp_all add: startSession_first_value)
  have second: "sessionPromiseRef ?s2 = Some 10" "promises ?s2 5 = Pending []"
    "promises ?s2 10 = Pending []" "inputAudioContextRef ?s2 = Some 6"
    "outputAudioContextRef ?s2 = Some 7" "contexts ?s2 1 = Running" "contexts ?s2 2 = Running"
    "liveTracks ?s2 = {4, 9}"
    "updates ?s2
       = [SetError None, SetSessionState CONNECTING, SetError None, SetSessionState CONNECTING]"
    unfolding startSession_first_value
    by (simp_all add: startSession_def connectBlock_def grantedEnv_def session_steps Let_def
        insert_commute)
  have differ: "?s2 \<noteq> ?s1"
  proof
    assume "?s2 = ?s1"
    then have "sessionPromiseRef ?s2 = sessionPromiseRef ?s1"
      by simp
    then show False
      using first(2) second(1) by simp
  qed
  have guarded: "startSession toLowerCase CONNECTING grantedEnv ?s1 = ?s1"
    by (simp add: startSession_def)
  show ?thesis
    using first second differ guarded by (simp only: simp_thms)
qed

section \<open>Properties of the channel callbacks\<close>

lemma onopen_closed_flag: "isClosedRef s \<Longrightarrow> onopen s = s"
  by (simp add: onopen_def)

lemma onopen_no_input: "inputAudioContextRef s = None \<Longrightarrow> onopen s = s"
  by (simp add: onopen_def)

lemma onopen_no_stream: "streamRef s = None \<Longrightarrow> onopen s = s"
  by (simp add: onopen_def split: option.splits)

lemma onopen_input_closed:
  "inputAudioContextRef s = Some c \<Longrightarrow> contexts s c = Closed \<Longrightarrow> onopen s = s"
  by (simp add: onopen_def split: option.splits)

text \<open>
  C6: an open callback that fires after cleanup has run does nothing.  The callback returns the
  state it was given, with no state setter called, no node created and no connection made, when
  the channel is marked closed, when the input context or the microphone stream is gone, and
  when the input context is closed; every state left by cleanup or by the close callback is
  such a state.  The callback has no statement that can raise on these paths: it returns at one
  of its two guards.
\<close>

theorem onopen_after_cleanup_is_noop:
  "onopen (cleanup s) = cleanup s \<and>
   onopen (onclose s) = onclose s \<and>
   (isClosedRef s \<longrightarrow> onopen s = s) \<and>
   (inputAudioContextRef s = None \<or> streamRef s = None \<longrightarrow> onopen s = s) \<and>
   (\<forall>c. inputAudioContextRef s = Some c \<and> contexts s c = Closed \<longrightarrow> onopen s = s)"
proof -
  have "onopen (cleanup s) = cleanup s"
    by (rule onopen_no_input) (rule cleanup_refs)
  moreover have "onopen (onclose s) = onclose s"
    by (rule onopen_no_input) (simp add: onclose_def Let_def cleanup_refs)
  ultimately show ?thesis
    using onopen_closed_flag [of s] onopen_no_input [of s] onopen_no_stream [of s]
      onopen_input_closed [of s]
    by blast
qed

text \<open>
  The guards at work: on the opened session after its close callback (channel marked closed,
  cells emptied), on a fresh hook (no input context), and on the opened session whose input
  context was closed from outside.  On the session whose channel has not opened yet the
  callback does wire the capture path.
\<close>

theorem onopen_after_cleanup_is_noop_witness:
  "isClosedRef (onclose openedSession) \<and>
   onopen (onclose openedSession) = onclose openedSession \<and>
   onopen (cleanup openedSession) = cleanup openedSession \<and>
   inputAudioContextRef initialHook = None \<and> onopen initialHook = initialHook \<and>
   inputAudioContextRef (openedSession\<lparr>contexts := (\<lambda>_. Closed)\<rparr>) = Some 1 \<and>
   contexts (openedSession\<lparr>contexts := (\<lambda>_. Closed)\<rparr>) 1 = Closed \<and>
   onopen (openedSession\<lparr>contexts := (\<lambda>_. Closed)\<rparr>) = openedSession\<lparr>contexts := (\<lambda>_. Closed)\<rparr> \<and>
   onopen (startSession asciiLowerCase IDLE grantedEnv initialHook)
     \<noteq> startSession asciiLowerCase IDLE grantedEnv initialHook"
proof -
  have closed: "isClosedRef (onclose openedSession)"
    by (simp add: onclose_def Let_def cleanup_keeps setSessionState_def)
  have fresh: "inputAudioContextRef initialHook = None"
    by (simp add: initialHook_def)
  have gone: "inputAudioContextRef (openedSession\<lparr>contexts := (\<lambda>_. Closed)\<rparr>) = Some 1"
    "contexts (openedSession\<lparr>contexts := (\<lambda>_. Closed)\<rparr>) 1 = Closed"
    by (simp_all add: openedSession_value)
  have wired: "onopen (startSession asciiLowerCase IDLE grantedEnv initialHook)
                 \<noteq> startSession asciiLowerCase IDLE grantedEnv initialHook"
  proof
    assume "onopen (startSession asciiLowerCase IDLE grantedEnv initialHook)
              = startSession asciiLowerCase IDLE grantedEnv initialHook"
    then have "scriptProcessorRef (onopen (startSession asciiLowerCase IDLE grantedEnv initialHook))
                 = scriptProcessorRef (startSession asciiLowerCase IDLE grantedEnv initialHook)"
      by simp
    then show False
      by (simp add: onopen_def startSession_def connectBlock_def grantedEnv_def initialHook_def
          session_steps Let_def)
  qed
  show ?thesis
    using onopen_after_cleanup_is_noop [of openedSession]
      onopen_after_cleanup_is_noop [of initialHook]
      onopen_after_cleanup_is_noop [of "openedSession\<lparr>contexts := (\<lambda>_. Closed)\<rparr>"]
      closed fresh gone wired
    by blast
qed

text \<open>
  The close callback tests the mirror \<^verbatim>\<open>sessionStateRef\<close>.  When the mirror is current, a
  session state \<open>ERROR\<close> stays \<open>ERROR\<close> and any other session state becomes \<open>IDLE\<close>.  In every
  case the held error is left as it is, the channel is marked closed and cleanup has run.
\<close>

lemma onclose_with_current_mirror:
  assumes "sessionStateRef s = sessionState s"
  shows "(sessionState s = ERROR \<longrightarrow>
            sessionState (onclose s) = ERROR \<and> error (onclose s) = error s) \<and>
         (sessionState s \<noteq> ERROR \<longrightarrow>
            sessionState (onclose s) = IDLE \<and> error (onclose s) = error s) \<and>
         (\<exists>s'. onclose s = cleanup s' \<and> isClosedRef s') \<and>
         isClosedRef (onclose s) \<and>
         sessionPromiseRef (onclose s) = None \<and>
         inputAudioContextRef (onclose s) = None \<and>
         outputAudioContextRef (onclose s) = None \<and>
         streamRef (onclose s) = None \<and>
         audioSourcesRef (onclose s) = {} \<and>
         nextStartTimeRef (onclose s) = 0"
proof -
  have run: "\<exists>s'. onclose s = cleanup s' \<and> isClosedRef s'"
    by (cases "sessionStateRef s = ERROR")
       (auto simp add: onclose_def Let_def setSessionState_def intro!: exI)
  have rest: "isClosedRef (onclose s)" "sessionPromiseRef (onclose s) = None"
    "inputAudioContextRef (onclose s) = None" "outputAudioContextRef (onclose s) = None"
    "streamRef (onclose s) = None" "audioSourcesRef (onclose s) = {}"
    "nextStartTimeRef (onclose s) = 0"
    by (simp_all add: onclose_def Let_def cleanup_refs cleanup_keeps setSessionState_def)
  have err: "sessionState s = ERROR \<longrightarrow>
               sessionState (onclose s) = ERROR \<and> error (onclose s) = error s"
    using assms by (simp add: onclose_def Let_def cleanup_keeps)
  have other: "sessionState s \<noteq> ERROR \<longrightarrow>
               sessionState (onclose s) = IDLE \<and> error (onclose s) = error s"
    using assms by (simp add: onclose_def Let_def cleanup_keeps setSessionState_def)
  show ?thesis
    using run rest err other by (simp only: simp_thms)
qed

text \<open>
  The mirror is written by the effect after a render, and by nothing else.  Between a call of
  \<^verbatim>\<open>setSessionState\<close> and the next render it holds the state of the last render: a close
  callback that fires after the error callback, before the hook has rendered, finds the mirror
  unchanged and sets \<open>IDLE\<close>; the error stays held.
\<close>

lemma onclose_before_render:
  "sessionStateRef s \<noteq> ERROR \<Longrightarrow>
   sessionState (onclose (onerror s)) = IDLE \<and>
   error (onclose (onerror s)) = Some disconnectedError"
  by (simp add: onclose_def onerror_def Let_def cleanup_keeps setSessionState_def setError_def)

text \<open>
  C9: the channel fails on the live example session: the error callback fires, then the close
  callback, with no render in between.  The error callback sets the session state to \<open>ERROR\<close>
  and holds the error; the mirror still says \<open>CONNECTED\<close>.  The close callback tests the mirror,
  so its guard does not hold back the transition: it sets the session state to \<open>IDLE\<close> while
  the error stays held, and runs cleanup.  Had the hook rendered between the two callbacks, the
  session state would have stayed \<open>ERROR\<close>.
\<close>

theorem onclose_right_after_onerror_sets_idle:
  "sessionState liveSession = CONNECTED \<and>
   sessionState (onerror liveSession) = ERROR \<and>
   error (onerror liveSession) = Some disconnectedError \<and>
   sessionStateRef (onerror liveSession) = CONNECTED \<and>
   sessionState (onclose (onerror liveSession)) = IDLE \<and>
   error (onclose (onerror liveSession)) = Some disconnectedError \<and>
   updates (onclose (onerror liveSession))
     = updates liveSession @
       [SetError (Some disconnectedError), SetSessionState ERROR, SetSessionState IDLE,
        SetIsSpeaking False] \<and>
   sessionPromiseRef (onclose (onerror liveSession)) = None \<and>
   sessionState (onclose (syncSessionStateRef (onerror liveSession))) = ERROR"
proof -
  have live: "sessionState liveSession = CONNECTED" "sessionStateRef liveSession = CONNECTED"
    by (simp_all add: liveSession_value openedSession_value)
  have err: "sessionState (onerror liveSession) = ERROR"
    "error (onerror liveSession) = Some disconnectedError"
    "sessionStateRef (onerror liveSession) = CONNECTED"
    using live by (simp_all add: onerror_def setSessionState_def setError_def)
  have close: "sessionState (onclose (onerror liveSession)) = IDLE"
    "error (onclose (onerror liveSession)) = Some disconnectedError"
    "updates (onclose (onerror liveSession))
       = updates liveSession @
         [SetError (Some disconnectedError), SetSessionState ERROR, SetSessionState IDLE,
          SetIsSpeaking False]"
    "sessionPromiseRef (onclose (onerror liveSession)) = None"
    using live
    by (simp_all add: onclose_def onerror_def Let_def cleanup_keeps cleanup_refs cleanup_updates
        setSessionState_def setError_def)
  have rendered: "sessionState (onclose (syncSessionStateRef (onerror liveSession))) = ERROR"
    by (simp add: onclose_def onerror_def syncSessionStateRef_def Let_def cleanup_keeps
        setSessionState_def setError_def)
  show ?thesis
    using live(1) err close rendered by (simp only: simp_thms)
qed

section \<open>Properties of the history\<close>

text \<open>
  C10: the id of a history entry is the text of its role, a hyphen and the reading of
  \<^verbatim>\<open>Date.now()\<close>.  Two entries of the same role appended at the same reading of the clock
  therefore have the same id, whatever their texts and content types.
\<close>

theorem addMessageToHistory_ids_collide:
  "history (addMessageToHistory roleText now text2 role type2
              (addMessageToHistory roleText now text1 role type1 s))
     = \<lparr>msg_id = roleText role @ ''-'' @ string_of_nat now,
         msg_role = role, msg_text = text2, msg_type = type2\<rparr> #
       \<lparr>msg_id = roleText role @ ''-'' @ string_of_nat now,
         msg_role = role, msg_text = text1, msg_type = type1\<rparr> #
       history s"
  by (simp add: addMessageToHistory_def setHistory_def)

text \<open>
  Such a pair arises within one event: two function calls without arguments both throw before
  anything is awaited, and their two apologies, appended at the same reading of the clock,
  share their id.
\<close>

lemma apologies_share_id:
  "map msg_id
     (history
        (snd (handleMessage roleText addition (noAudio failing)
                (toolCallMessage [textCall\<lparr>fc_args := None\<rparr>, imageCall\<lparr>fc_args := None\<rparr>])
                liveSession)))
     = [roleText MODEL @ ''-'' @ string_of_nat 2000, roleText MODEL @ ''-'' @ string_of_nat 2000]"
  by (simp add: handleMessage_def handleToolCall_def base64AudioOf_def
      toolCallMessage_def noAudio_def invoke_def tryBlock_def
      addMessageToHistory_def setHistory_def setIsThinking_def onToolCall_def
      failing_def textCall_def imageCall_def liveSession_value openedSession_value)

section \<open>Properties of playback\<close>

lemma handleMessage_audioChunk:
  assumes "outputAudioContextRef s \<noteq> None" "outputGainNodeRef s \<noteq> None" "fst c \<noteq> []"
  shows "snd (handleMessage roleText addition (fst (audioChunk r c)) (snd (audioChunk r c)) s)
           = restartSpeakingCheck
               (scheduleSource addition (chunk_clock c) (chunk_duration c)
                  (setIsSpeaking True s))"
  using assms by (simp add: handleMessage_def handleToolCall_def base64AudioOf_def audioChunk_def)

lemma schedule_step:
  "started (restartSpeakingCheck (scheduleSource addition clock duration (setIsSpeaking True s)))
     = started s @ [(max (nextStartTimeRef s) clock, duration)]"
  "nextStartTimeRef
     (restartSpeakingCheck (scheduleSource addition clock duration (setIsSpeaking True s)))
     = addition (max (nextStartTimeRef s) clock) duration"
  "outputAudioContextRef
     (restartSpeakingCheck (scheduleSource addition clock duration (setIsSpeaking True s)))
     = outputAudioContextRef s"
  "outputGainNodeRef
     (restartSpeakingCheck (scheduleSource addition clock duration (setIsSpeaking True s)))
     = outputGainNodeRef s"
  by (simp_all add: restartSpeakingCheck_def scheduleSource_def setIsSpeaking_def Let_def
      split: option.splits)

lemma handleMessages_append:
  "handleMessages roleText addition (xs @ ys) s
     = handleMessages roleText addition ys (handleMessages roleText addition xs s)"
  by (induction xs arbitrary: s) auto

lemma handleMessages_audio_Cons:
  assumes "outputAudioContextRef s \<noteq> None" "outputGainNodeRef s \<noteq> None" "fst c \<noteq> []"
  shows "handleMessages roleText addition (map (audioChunk r) (c # cs)) s
           = handleMessages roleText addition (map (audioChunk r) cs)
               (restartSpeakingCheck
                  (scheduleSource addition (chunk_clock c) (chunk_duration c)
                     (setIsSpeaking True s)))"
proof -
  obtain env msg where a: "audioChunk r c = (env, msg)"
    by (cases "audioChunk r c")
  then show ?thesis
    using handleMessage_audioChunk [OF assms, of roleText addition r] by simp
qed

lemma handleMessages_audio_refs:
  assumes "outputAudioContextRef s \<noteq> None" "outputGainNodeRef s \<noteq> None"
    "\<forall>c \<in> set chunks. fst c \<noteq> []"
  shows "outputAudioContextRef
           (handleMessages roleText addition (map (audioChunk r) chunks) s) \<noteq> None \<and>
         outputGainNodeRef
           (handleMessages roleText addition (map (audioChunk r) chunks) s) \<noteq> None"
  using assms
proof (induction chunks arbitrary: s)
  case Nil
  then show ?case by simp
next
  case (Cons c cs)
  let ?t = "restartSpeakingCheck
              (scheduleSource addition (chunk_clock c) (chunk_duration c)
                 (setIsSpeaking True s))"
  have "outputAudioContextRef ?t \<noteq> None" "outputGainNodeRef ?t \<noteq> None"
    using Cons.prems(1,2) by (simp_all add: schedule_step)
  moreover have "\<forall>c \<in> set cs. fst c \<noteq> []"
    using Cons.prems(3) by simp
  ultimately show ?case
    using Cons.IH [of ?t] Cons.prems handleMessages_audio_Cons [of s c roleText addition r cs]
    by simp
qed


text \<open>The cursor after chunk \<open>k\<close> is the sum, as the runtime adds, of its start and duration.\<close>

lemma cursor_step:
  assumes "outputAudioContextRef s \<noteq> None" "outputGainNodeRef s \<noteq> None"
    "\<forall>c \<in> set chunks. fst c \<noteq> []" "k < length chunks"
  shows "nextStartTimeRef
           (handleMessages roleText addition (map (audioChunk r) (take (Suc k) chunks)) s)
         = addition
             (max (nextStartTimeRef
                     (handleMessages roleText addition (map (audioChunk r) (take k chunks)) s))
                  (chunk_clock (chunks ! k)))
             (chunk_duration (chunks ! k))"
proof -
  let ?u = "handleMessages roleText addition (map (audioChunk r) (take k chunks)) s"
  let ?c = "chunks ! k"
  have pre: "\<forall>c \<in> set (take k chunks). fst c \<noteq> []"
    using assms(3) by (meson in_set_takeD)
  have u: "outputAudioContextRef ?u \<noteq> None" "outputGainNodeRef ?u \<noteq> None"
    using handleMessages_audio_refs [OF assms(1,2) pre] by simp_all
  have c: "fst ?c \<noteq> []"
    using assms(3,4) by simp
  have "take (Suc k) chunks = take k chunks @ [?c]"
    using assms(4) by (simp add: take_Suc_conv_app_nth)
  then have "handleMessages roleText addition (map (audioChunk r) (take (Suc k) chunks)) s
               = handleMessages roleText addition (map (audioChunk r) [?c]) ?u"
    by (simp add: handleMessages_append)
  also have "\<dots> = restartSpeakingCheck
               (scheduleSource addition (chunk_clock ?c) (chunk_duration ?c)
                  (setIsSpeaking True ?u))"
    using handleMessages_audio_Cons [OF u c, of roleText addition r "[]"] by simp
  finally show ?thesis
    by (simp add: schedule_step)
qed

text \<open>
  With the double addition the cursor is a non-negative double after every chunk, when it was
  one before the first, the readings of the clock are non-negative doubles and the durations
  are non-negative.
\<close>

lemma cursor_is_double:
  assumes "outputAudioContextRef s \<noteq> None" "outputGainNodeRef s \<noteq> None"
    "\<forall>c \<in> set chunks. fst c \<noteq> []"
    "0 \<le> nextStartTimeRef s" "roundToDouble (nextStartTimeRef s) = nextStartTimeRef s"
    "\<forall>c \<in> set chunks. 0 \<le> chunk_clock c \<and> roundToDouble (chunk_clock c) = chunk_clock c \<and>
                       0 \<le> chunk_duration c"
    "k \<le> length chunks"
  shows "0 \<le> nextStartTimeRef
               (handleMessages roleText doubleAdd (map (audioChunk r) (take k chunks)) s) \<and>
         roundToDouble
           (nextStartTimeRef
              (handleMessages roleText doubleAdd (map (audioChunk r) (take k chunks)) s))
           = nextStartTimeRef
               (handleMessages roleText doubleAdd (map (audioChunk r) (take k chunks)) s)"
  using assms(7)
proof (induction k)
  case 0
  then show ?case
    using assms(4,5) by simp
next
  case (Suc k)
  let ?cursor = "nextStartTimeRef
                   (handleMessages roleText doubleAdd (map (audioChunk r) (take k chunks)) s)"
  let ?c = "chunks ! k"
  have k: "k < length chunks"
    using Suc.prems by simp
  have ih: "0 \<le> ?cursor" "roundToDouble ?cursor = ?cursor"
    using Suc.IH k by simp_all
  have c: "0 \<le> chunk_clock ?c" "0 \<le> chunk_duration ?c"
    using assms(6) k by simp_all
  have sum: "0 \<le> max ?cursor (chunk_clock ?c) + chunk_duration ?c"
    using ih(1) c by simp
  have step: "nextStartTimeRef
                (handleMessages roleText doubleAdd (map (audioChunk r) (take (Suc k) chunks)) s)
              = roundToDouble (max ?cursor (chunk_clock ?c) + chunk_duration ?c)"
    using cursor_step [OF assms(1,2,3) k, of roleText doubleAdd r] by (simp add: doubleAdd_def)
  show ?case
    using roundToDouble_nonneg [OF sum] roundToDouble_idem [OF sum] by (simp only: step simp_thms)
qed

text \<open>Then the cursor never decreases from one chunk to the next.\<close>

lemma cursor_of_doubles_never_decreases:
  assumes "outputAudioContextRef s \<noteq> None" "outputGainNodeRef s \<noteq> None"
    "\<forall>c \<in> set chunks. fst c \<noteq> []"
    "0 \<le> nextStartTimeRef s" "roundToDouble (nextStartTimeRef s) = nextStartTimeRef s"
    "\<forall>c \<in> set chunks. 0 \<le> chunk_clock c \<and> roundToDouble (chunk_clock c) = chunk_clock c \<and>
                       0 \<le> chunk_duration c"
    "k < length chunks"
  shows "nextStartTimeRef
           (handleMessages roleText doubleAdd (map (audioChunk r) (take k chunks)) s)
         \<le> nextStartTimeRef
              (handleMessages roleText doubleAdd (map (audioChunk r) (take (Suc k) chunks)) s)"
proof -
  let ?cursor = "nextStartTimeRef
                   (handleMessages roleText doubleAdd (map (audioChunk r) (take k chunks)) s)"
  let ?c = "chunks ! k"
  let ?start = "max ?cursor (chunk_clock ?c)"
  have cur: "0 \<le> ?cursor" "roundToDouble ?cursor = ?cursor"
    using cursor_is_double [OF assms(1-6), of k roleText r] assms(7) by simp_all
  have c: "0 \<le> chunk_clock ?c" "roundToDouble (chunk_clock ?c) = chunk_clock ?c"
    "0 \<le> chunk_duration ?c"
    using assms(6,7) by simp_all
  have start: "0 \<le> ?start" "roundToDouble ?start = ?start"
    using cur c by (simp_all add: max_def)
  have "?cursor \<le> ?start"
    by simp
  also have "\<dots> \<le> doubleAdd ?start (chunk_duration ?c)"
    by (rule doubleAdd_not_below [OF start c(3)])
  also have "\<dots> = nextStartTimeRef
               (handleMessages roleText doubleAdd (map (audioChunk r) (take (Suc k) chunks)) s)"
    using cursor_step [OF assms(1,2,3,7), of roleText doubleAdd r] by simp
  finally show ?thesis .
qed





section \<open>Properties of the capture path\<close>

text \<open>
  C8, as stated: a chunk produced while the channel is not yet ready is dropped and never
  delivered later.  On the example session whose channel has opened while its session promise
  (address 5) is still pending, the capture callback sends nothing at once, but its reaction
  waits on the promise, and the chunk is sent when the promise is fulfilled.
\<close>

theorem onaudioprocess_pending_counterexample:
  "sessionPromiseRef openedSession = Some 5 \<and>
   promises openedSession 5 = Pending [] \<and>
   sent (onaudioprocess ''AAECAw=='' openedSession) = [] \<and>
   promises (onaudioprocess ''AAECAw=='' openedSession) 5 = Pending [RealtimeInput ''AAECAw==''] \<and>
   sent (fulfilSession 5 (onaudioprocess ''AAECAw=='' openedSession))
     = [RealtimeInput ''AAECAw=='']"
  by (simp add: onaudioprocess_def thenSend_def fulfilSession_def openedSession_value)

text \<open>
  C8, as the capture callback behaves.  With an empty channel cell the chunk is dropped: the
  state is unchanged.  With a rejected session promise the chunk is dropped.  With a fulfilled
  promise the chunk is sent once.  With a pending promise nothing is sent at once and the send
  waits behind the sends registered before it; it is delivered once, after them, if the promise
  is fulfilled, and never if the promise is rejected.  In no case is a chunk sent twice or sent
  again later by the callback.
\<close>

theorem onaudioprocess_sends_at_most_once:
  "(sessionPromiseRef s = None \<longrightarrow> onaudioprocess pcmBlob s = s) \<and>
   (\<forall>p. sessionPromiseRef s = Some p \<and> promises s p = Rejected \<longrightarrow>
        onaudioprocess pcmBlob s = s) \<and>
   (\<forall>p. sessionPromiseRef s = Some p \<and> promises s p = Fulfilled \<longrightarrow>
        onaudioprocess pcmBlob s = s\<lparr>sent := sent s @ [RealtimeInput pcmBlob]\<rparr>) \<and>
   (\<forall>p waiting. sessionPromiseRef s = Some p \<and> promises s p = Pending waiting \<longrightarrow>
        onaudioprocess pcmBlob s
          = s\<lparr>promises := (promises s)(p := Pending (waiting @ [RealtimeInput pcmBlob]))\<rparr> \<and>
        sent (fulfilSession p (onaudioprocess pcmBlob s))
          = sent s @ waiting @ [RealtimeInput pcmBlob] \<and>
        promises (fulfilSession p (onaudioprocess pcmBlob s)) p = Fulfilled \<and>
        sent (rejectSession p (onaudioprocess pcmBlob s)) = sent s \<and>
        promises (rejectSession p (onaudioprocess pcmBlob s)) p = Rejected)"
  by (simp add: onaudioprocess_def thenSend_def fulfilSession_def rejectSession_def)

text \<open>
  The four cases: a session that was cleaned up (empty cell), the opened session after its
  promise was rejected, the live session, and the opened session with its pending promise.
\<close>

theorem onaudioprocess_sends_at_most_once_witness:
  "sessionPromiseRef (cleanup liveSession) = None \<and>
   onaudioprocess ''AAECAw=='' (cleanup liveSession) = cleanup liveSession \<and>
   sessionPromiseRef (rejectSession 5 openedSession) = Some 5 \<and>
   promises (rejectSession 5 openedSession) 5 = Rejected \<and>
   onaudioprocess ''AAECAw=='' (rejectSession 5 openedSession) = rejectSession 5 openedSession \<and>
   sessionPromiseRef liveSession = Some 5 \<and> promises liveSession 5 = Fulfilled \<and>
   onaudioprocess ''AAECAw=='' liveSession
     = liveSession\<lparr>sent := sent liveSession @ [RealtimeInput ''AAECAw=='']\<rparr> \<and>
   sessionPromiseRef openedSession = Some 5 \<and> promises openedSession 5 = Pending [] \<and>
   sent (fulfilSession 5 (onaudioprocess ''AAECAw=='' openedSession))
     = sent openedSession @ [] @ [RealtimeInput ''AAECAw==''] \<and>
   sent (rejectSession 5 (onaudioprocess ''AAECAw=='' openedSession)) = sent openedSession"
proof -
  have a: "sessionPromiseRef (cleanup liveSession) = None"
    by (rule cleanup_refs)
  have b: "sessionPromiseRef (rejectSession 5 openedSession) = Some 5"
    "promises (rejectSession 5 openedSession) 5 = Rejected"
    by (simp_all add: rejectSession_def openedSession_value)
  have c: "sessionPromiseRef liveSession = Some 5" "promises liveSession 5 = Fulfilled"
    by (simp_all add: liveSession_value openedSession_value)
  have d: "sessionPromiseRef openedSession = Some 5" "promises openedSession 5 = Pending []"
    by (simp_all add: openedSession_value)
  show ?thesis
    using a b c d
      onaudioprocess_sends_at_most_once [of "cleanup liveSession" "''AAECAw==''"]
      onaudioprocess_sends_at_most_once [of "rejectSession 5 openedSession" "''AAECAw==''"]
      onaudioprocess_sends_at_most_once [of liveSession "''AAECAw==''"]
      onaudioprocess_sends_at_most_once [of openedSession "''AAECAw==''"]
    by blast
qed

section \<open>Properties of the tool-call loop\<close>

lemmas tool_steps =
  handleMessage_def handleToolCall_def base64AudioOf_def
  toolCallMessage_def noAudio_def invoke_def tryBlock_def sendToolResponse_def
  thenSend_def addMessageToHistory_def handleProModelResponse_def handleImageModelResponse_def
  setHistory_def setIsThinking_def onToolCall_def

lemma addMessageToHistory_keeps:
  "sent (addMessageToHistory roleText now text role type s) = sent s"
  "promises (addMessageToHistory roleText now text role type s) = promises s"
  "sessionPromiseRef (addMessageToHistory roleText now text role type s) = sessionPromiseRef s"
  "aiRef (addMessageToHistory roleText now text role type s) = aiRef s"
  by (simp_all add: addMessageToHistory_def setHistory_def)

lemma handleProModelResponse_keeps:
  "sent (handleProModelResponse roleText now response s) = sent s"
  "promises (handleProModelResponse roleText now response s) = promises s"
  "sessionPromiseRef (handleProModelResponse roleText now response s) = sessionPromiseRef s"
  by (simp_all add: handleProModelResponse_def addMessageToHistory_keeps split: option.splits)

lemma handleImageModelResponse_keeps:
  "sent (snd (handleImageModelResponse roleText now response s)) = sent s"
  "promises (snd (handleImageModelResponse roleText now response s)) = promises s"
  "sessionPromiseRef (snd (handleImageModelResponse roleText now response s))
     = sessionPromiseRef s"
  by (simp_all add: handleImageModelResponse_def addMessageToHistory_keeps
      split: option.splits list.splits)

lemma sendToolResponse_fulfilled:
  "sessionPromiseRef s = Some p \<Longrightarrow> promises s p = Fulfilled \<Longrightarrow>
   sent (sendToolResponse fc result s)
     = sent s @ [ToolResponse (fc_id fc) (fc_name fc) result]"
  by (simp add: sendToolResponse_def thenSend_def)

text \<open>
  One iteration on a fulfilled session promise: when the \<^verbatim>\<open>try\<close> block completes, exactly one
  response with the id and the name of the call is sent; when it throws, none is sent.
\<close>

lemma invoke_response:
  assumes "sessionPromiseRef s = Some p" and "promises s p = Fulfilled"
  shows "(fst (tryBlock roleText env fc s) = None \<longrightarrow>
            (\<exists>result. sent (invoke roleText env fc s)
                        = sent s @ [ToolResponse (fc_id fc) (fc_name fc) result])) \<and>
         (fst (tryBlock roleText env fc s) \<noteq> None \<longrightarrow> sent (invoke roleText env fc s) = sent s)"
proof -
  have img: "sessionPromiseRef t' = Some p \<and> promises t' p = Fulfilled \<and> sent t' = sent t"
    if "handleImageModelResponse roleText now response t = (x, t')"
      "sessionPromiseRef t = Some p" "promises t p = Fulfilled" for now response t x t'
    using handleImageModelResponse_keeps [of roleText now response t] that by simp
  show ?thesis
    using assms
    by (auto simp add: invoke_def tryBlock_def Let_def setIsThinking_def
        addMessageToHistory_keeps handleProModelResponse_keeps sendToolResponse_fulfilled
        split: option.splits sum.splits prod.splits dest!: img)
qed

lemma invoke_keeps_session:
  assumes "sessionPromiseRef s = Some p" and "promises s p = Fulfilled"
  shows "sessionPromiseRef (invoke roleText env fc s) = Some p"
    and "promises (invoke roleText env fc s) p = Fulfilled"
proof -
  have img: "sessionPromiseRef t' = Some p \<and> promises t' p = Fulfilled"
    if "handleImageModelResponse roleText now response t = (x, t')"
      "sessionPromiseRef t = Some p" "promises t p = Fulfilled" for now response t x t'
    using handleImageModelResponse_keeps [of roleText now response t] that by simp
  show "sessionPromiseRef (invoke roleText env fc s) = Some p"
    using assms
    by (auto simp add: invoke_def tryBlock_def Let_def setIsThinking_def sendToolResponse_def
        thenSend_def addMessageToHistory_keeps handleProModelResponse_keeps
        split: option.splits sum.splits prod.splits dest!: img)
  show "promises (invoke roleText env fc s) p = Fulfilled"
    using assms
    by (auto simp add: invoke_def tryBlock_def Let_def setIsThinking_def sendToolResponse_def
        thenSend_def addMessageToHistory_keeps handleProModelResponse_keeps
        split: option.splits sum.splits prod.splits dest!: img)
qed

text \<open>
  The loop on a fulfilled session promise: the responses sent are at most as many as the
  function calls, and each carries the id and the name of one of the calls.
\<close>

lemma functionCallsLoop_responses:
  assumes "sessionPromiseRef s = Some p" and "promises s p = Fulfilled"
  shows "\<exists>responses.
           sent (functionCallsLoop roleText r fcs s) = sent s @ responses \<and>
           length responses \<le> length fcs \<and>
           (\<forall>x \<in> set responses.
              \<exists>fc \<in> set fcs. \<exists>result. x = ToolResponse (fc_id fc) (fc_name fc) result)"
  using assms
proof (induction fcs arbitrary: s)
  case Nil
  then show ?case by simp
next
  case (Cons fc fcs)
  let ?t = "invoke roleText (r fc) fc s"
  have t: "sessionPromiseRef ?t = Some p" "promises ?t p = Fulfilled"
    using invoke_keeps_session [OF Cons.prems] by simp_all
  obtain one where one: "sent ?t = sent s @ one" "length one \<le> 1"
    "\<forall>x \<in> set one. \<exists>result. x = ToolResponse (fc_id fc) (fc_name fc) result"
  proof (cases "fst (tryBlock roleText (r fc) fc s)")
    case None
    then obtain result where
      "sent ?t = sent s @ [ToolResponse (fc_id fc) (fc_name fc) result]"
      using invoke_response [OF Cons.prems, of roleText "r fc" fc] by blast
    then show ?thesis
      using that [of "[ToolResponse (fc_id fc) (fc_name fc) result]"] by simp
  next
    case (Some e)
    then have "sent ?t = sent s"
      using invoke_response [OF Cons.prems, of roleText "r fc" fc] by simp
    then show ?thesis
      using that [of "[]"] by simp
  qed
  obtain more where more: "sent (functionCallsLoop roleText r fcs ?t) = sent ?t @ more"
    "length more \<le> length fcs"
    "\<forall>x \<in> set more. \<exists>fc \<in> set fcs. \<exists>result. x = ToolResponse (fc_id fc) (fc_name fc) result"
    using Cons.IH [OF t] by blast
  have "sent (functionCallsLoop roleText r (fc # fcs) s) = sent s @ (one @ more)"
    using one(1) more(1) by simp
  moreover have "length (one @ more) \<le> length (fc # fcs)"
    using one(2) more(2) by simp
  moreover have "\<forall>x \<in> set (one @ more).
      \<exists>fc' \<in> set (fc # fcs). \<exists>result. x = ToolResponse (fc_id fc') (fc_name fc') result"
    using one(3) more(3) by auto
  ultimately show ?case
    by blast
qed

text \<open>After every iteration of the loop the thinking flag is false.\<close>

lemma invoke_isThinking: "isThinking (invoke roleText env fc s) = False"
  by (simp add: invoke_def setIsThinking_def)

lemma functionCallsLoop_snoc:
  "functionCallsLoop roleText r (fcs @ [fc]) s
     = invoke roleText (r fc) fc (functionCallsLoop roleText r fcs s)"
  by (induction fcs arbitrary: s) simp_all

lemma functionCallsLoop_isThinking:
  "fcs \<noteq> [] \<Longrightarrow> isThinking (functionCallsLoop roleText r fcs s) = False"
  by (cases fcs rule: rev_cases) (simp_all add: functionCallsLoop_snoc invoke_isThinking)

text \<open>
  C1: a tool-call event with one function call, \<^verbatim>\<open>generateContent\<close>, whose awaited model call
  rejects, handled on the live example session.  The request entry and the apology are appended
  to the history, no tool response is sent and none waits on the (fulfilled) session promise:
  the send is the last statement of the \<^verbatim>\<open>try\<close> block, which the throw leaves.  A call of an
  unknown tool, which does not throw, is answered with the failure text.  So an event of two
  calls, the first failing and the second unknown, gets one response.
\<close>

theorem handleMessage_failed_call_unanswered:
  "sent (snd (handleMessage roleText addition (noAudio failing) (toolCallMessage [textCall])
          liveSession))
     = [] \<and>
   promises
     (snd (handleMessage roleText addition (noAudio failing) (toolCallMessage [textCall])
             liveSession)) 5
     = Fulfilled \<and>
   map msg_text
     (history
        (snd (handleMessage roleText addition (noAudio failing) (toolCallMessage [textCall])
                liveSession)))
     = [apology, content_request_prefix @ ''Explain tides''] \<and>
   sent (snd (handleMessage roleText addition (noAudio failing) (toolCallMessage [unknownCall])
                liveSession))
     = [ToolResponse ''call-3'' ''playMusic'' ''Sorry, I couldn't do that.''] \<and>
   sent (snd (handleMessage roleText addition (noAudio failing) (toolCallMessage [textCall, unknownCall])
                liveSession))
     = [ToolResponse ''call-3'' ''playMusic'' ''Sorry, I couldn't do that.'']"
  by (simp add: tool_steps failing_def textCall_def unknownCall_def liveSession_value
      openedSession_value Let_def)

text \<open>
  C3: a tool-call event with two function calls, both of which succeed, handled on the live
  example session.  The thinking flag is set once, before the loop, and cleared in the
  \<^verbatim>\<open>finally\<close> block of every iteration: the second call starts in the state left by the first,
  in which the flag is already false, and the flag is not set again.  The updates made by the
  handler show the same: the request of the second call is appended after the flag was
  cleared.  With an empty list of calls the flag is set and never cleared.
\<close>

theorem handleMessage_thinking_cleared_after_first_call:
  "snd (handleMessage roleText addition (noAudio answering) (toolCallMessage [textCall, imageCall])
          liveSession)
     = invoke roleText (answering imageCall) imageCall
         (snd (handleMessage roleText addition (noAudio answering) (toolCallMessage [textCall])
                 liveSession)) \<and>
   isThinking
     (snd (handleMessage roleText addition (noAudio answering) (toolCallMessage [textCall])
             liveSession))
     = False \<and>
   map msg_text
     (history (snd (handleMessage roleText addition (noAudio answering)
                      (toolCallMessage [textCall, imageCall]) liveSession)))
     = [''data:image/jpeg;base64,QUJD'', image_request_prefix @ ''A red kite'',
        ''Hello'', content_request_prefix @ ''Explain tides''] \<and>
   updates (snd (handleMessage roleText addition (noAudio answering)
                   (toolCallMessage [textCall, imageCall]) liveSession))
     = updates liveSession @
       [OnToolCall, SetIsThinking True,
        SetHistory (history (snd (handleMessage roleText addition (noAudio answering)
                                    (toolCallMessage [textCall, imageCall]) liveSession)) ! 3),
        SetHistory (history (snd (handleMessage roleText addition (noAudio answering)
                                    (toolCallMessage [textCall, imageCall]) liveSession)) ! 2),
        SetIsThinking False,
        SetHistory (history (snd (handleMessage roleText addition (noAudio answering)
                                    (toolCallMessage [textCall, imageCall]) liveSession)) ! 1),
        SetHistory (history (snd (handleMessage roleText addition (noAudio answering)
                                    (toolCallMessage [textCall, imageCall]) liveSession)) ! 0),
        SetIsThinking False] \<and>
   isThinking (snd (handleMessage roleText addition (noAudio answering) (toolCallMessage [])
           liveSession))
     = True"
proof -
  have split: "snd (handleMessage roleText addition (noAudio answering)
                      (toolCallMessage [textCall, imageCall]) liveSession)
     = invoke roleText (answering imageCall) imageCall
         (snd (handleMessage roleText addition (noAudio answering) (toolCallMessage [textCall])
                 liveSession))"
    by (simp add: handleMessage_def handleToolCall_def base64AudioOf_def
        toolCallMessage_def noAudio_def)
  have first: "isThinking
     (snd (handleMessage roleText addition (noAudio answering) (toolCallMessage [textCall])
             liveSession))
     = False"
    by (simp add: handleMessage_def handleToolCall_def base64AudioOf_def
        toolCallMessage_def noAudio_def invoke_isThinking)
  have empty: "isThinking
     (snd (handleMessage roleText addition (noAudio answering) (toolCallMessage [])
             liveSession)) = True"
    by (simp add: handleMessage_def handleToolCall_def base64AudioOf_def
        toolCallMessage_def noAudio_def setIsThinking_def)
  have texts: "map msg_text
     (history (snd (handleMessage roleText addition (noAudio answering)
                      (toolCallMessage [textCall, imageCall]) liveSession)))
     = [''data:image/jpeg;base64,QUJD'', image_request_prefix @ ''A red kite'',
        ''Hello'', content_request_prefix @ ''Explain tides'']"
    by (simp add: tool_steps answering_def textCall_def imageCall_def liveSession_value
        openedSession_value Let_def)
  have trace: "updates (snd (handleMessage roleText addition (noAudio answering)
                   (toolCallMessage [textCall, imageCall]) liveSession))
     = updates liveSession @
       [OnToolCall, SetIsThinking True,
        SetHistory (history (snd (handleMessage roleText addition (noAudio answering)
                                    (toolCallMessage [textCall, imageCall]) liveSession)) ! 3),
        SetHistory (history (snd (handleMessage roleText addition (noAudio answering)
                                    (toolCallMessage [textCall, imageCall]) liveSession)) ! 2),
        SetIsThinking False,
        SetHistory (history (snd (handleMessage roleText addition (noAudio answering)
                                    (toolCallMessage [textCall, imageCall]) liveSession)) ! 1),
        SetHistory (history (snd (handleMessage roleText addition (noAudio answering)
                                    (toolCallMessage [textCall, imageCall]) liveSession)) ! 0),
        SetIsThinking False]"
    by (simp add: tool_steps answering_def textCall_def imageCall_def liveSession_value
        openedSession_value Let_def eval_nat_numeral)
  show ?thesis
    using split first texts trace empty by (simp only: simp_thms)
qed

end
